theory Spec2Isabelle
  imports Complex_Main "HOL-Library.Word" "HOL-Library.Sublist" "HOL-Library.AList"
begin

section \<open>Bytes, the boundary and the key\<close>

type_synonym byte = "8 word"

text \<open>
  \<^verbatim>\<open>generateBoundary\<close> returns \<^verbatim>\<open>sha512.Sum512([]byte("boundary"))\<close>: a constant of
  64 bytes. The hash function belongs to the Go library; the digest is written out.
\<close>

definition generateBoundary :: "byte list" where
  "generateBoundary =
    [0x29, 0xa0, 0x2e, 0xd9, 0xe7, 0xd8, 0x23, 0x52, 0x58, 0x2a, 0x95, 0xd0, 0x47, 0xcc, 0x25, 0x11,
     0x13, 0x13, 0x0d, 0x37, 0x69, 0x29, 0xf6, 0xbc, 0x70, 0x93, 0x7a, 0x84, 0xc4, 0x99, 0x3a, 0x99,
     0x52, 0x75, 0x05, 0xf5, 0x24, 0xdf, 0x76, 0x6c, 0x34, 0x5d, 0xa5, 0x09, 0x34, 0x00, 0xd9, 0x5a,
     0xf9, 0x6d, 0x4a, 0x56, 0x32, 0xe1, 0x40, 0x66, 0x26, 0x0f, 0x12, 0xa9, 0x7a, 0xa6, 0x7a, 0x43]"

definition keyLength :: nat where
  "keyLength = 16"

text \<open>\<^verbatim>\<open>const maxBoundaryOffset = 100e6\<close>: the offset at which the search for a boundary stops.\<close>

definition maxBoundaryOffset :: nat where
  "maxBoundaryOffset = 100000000"

text \<open>
  \<^verbatim>\<open>bytes.Index(s, sep)\<close>: the index of the first instance of \<open>sep\<close> in \<open>s\<close>;
  \<open>None\<close> stands for Go's \<open>-1\<close>.
\<close>

fun bytes_Index :: "byte list \<Rightarrow> byte list \<Rightarrow> nat option" where
  "bytes_Index [] sep = (if sep = [] then Some 0 else None)"
| "bytes_Index (x # xs) sep =
     (if prefix sep (x # xs) then Some 0 else map_option Suc (bytes_Index xs sep))"


section \<open>Fatal errors\<close>

text \<open>
  \<^verbatim>\<open>die\<close> logs its message and terminates the process. A function that may die returns
  an \<open>outcome\<close>: \<open>Die\<close> with the first words of the message, or \<open>Return\<close> with its result.
\<close>

datatype 'a outcome = Die string | Return 'a

section \<open>The self-image reader\<close>

text \<open>
  The file behind \<^verbatim>\<open>os.Args[0]\<close>: its bytes, and whether reading or seeking it fails.
  The result of \<^verbatim>\<open>os.Open\<close> is an \<open>os_file option\<close>, \<open>None\<close> when the file cannot be opened.
\<close>

record os_file =
  contents :: "byte list"
  read_fails :: bool
  seek_fails :: bool

datatype io_error = EOF | EIO

text \<open>
  \<^verbatim>\<open>(*os.File).Read\<close> on a freshly opened file: it reads up to the length of the buffer
  and returns the number of bytes read and the error, \<open>None\<close> for \<^verbatim>\<open>nil\<close>. As the Go
  library documents, at end of file it returns \<^verbatim>\<open>0, io.EOF\<close>; a read that delivers bytes
  returns no error, also when it delivers the last bytes of the file.
\<close>

definition file_Read :: "os_file \<Rightarrow> nat \<Rightarrow> nat \<times> io_error option" where
  "file_Read f len =
     (if read_fails f then (0, Some EIO)
      else if len = 0 then (0, None)
      else if contents f = [] then (0, Some EOF)
      else (min len (length (contents f)), None))"

text \<open>
  \<^verbatim>\<open>readSelf\<close> returns the stub, the payload stream and the key; the last two are \<^verbatim>\<open>nil\<close>
  (\<open>None\<close>) when no boundary was found. The buffer \<^verbatim>\<open>buf\<close> is a slice of a zeroed array
  of \<open>maxBoundaryOffset + keyLength\<close> bytes: \<open>arr\<close> is that array after the read, and a
  slice expression \<^verbatim>\<open>buf[:k]\<close> is \<open>take k arr\<close>. The payload stream is the file from the
  offset of the seek on.
\<close>

definition readSelf :: "os_file option \<Rightarrow> (byte list \<times> byte list option \<times> byte list option) outcome" where
  "readSelf opened =
     (case opened of
        None \<Rightarrow> Die ''opening itself:''
      | Some self \<Rightarrow>
         (let buf0 = replicate (maxBoundaryOffset + keyLength) (0 :: byte);
              (n, err) = file_Read self (length buf0)
          in if err \<noteq> None \<and> err \<noteq> Some EOF then Die ''reading itself:''
             else
              (let bufFull = (err = Some EOF);
                   arr = take n (contents self) @ drop n buf0;
                   boundary = generateBoundary
               in (case bytes_Index (take maxBoundaryOffset arr) boundary of
                     None \<Rightarrow>
                       if bufFull then Die ''boundary not found before byte''
                       else Return (take n arr, None, None)
                   | Some bdyOff \<Rightarrow>
                      (let keyOff = bdyOff + length boundary;
                           payloadOff = keyOff + keyLength;
                           key = drop keyOff (take payloadOff arr)
                       in if seek_fails self then Die ''seeking to start of payload:''
                          else Return (take bdyOff arr,
                                       Some (drop payloadOff (contents self)),
                                       Some key))))))"

text \<open>A regular file that reads and seeks without fault.\<close>

definition regular_file :: "byte list \<Rightarrow> os_file" where
  "regular_file bs = \<lparr>contents = bs, read_fails = False, seek_fails = False\<rparr>"

section \<open>The archive builder\<close>

text \<open>
  \<^verbatim>\<open>generateRandomKey\<close> fills a buffer of \<open>keyLength\<close> bytes from \<^verbatim>\<open>crypto/rand\<close>; the
  argument is what the random source delivers.
\<close>

definition generateRandomKey :: "byte list \<Rightarrow> byte list outcome" where
  "generateRandomKey entropy =
     (if length entropy < keyLength then Die ''generating random key:''
      else Return (take keyLength entropy))"

text \<open>
  \<^verbatim>\<open>create\<close> writes the stub, the boundary, a fresh key and then the compressed container
  to the output file; the result is the bytes of that file. The container codec is a
  library: \<open>packed\<close> is the outcome of walking the input files and the bytes the zstd
  writer emitted for them. \<open>out_ok\<close> says whether the output file could be opened and
  written. The parameter \<open>key\<close> is passed by \<^verbatim>\<open>main\<close> and not used, as in the source.
\<close>

definition create ::
  "byte list \<Rightarrow> byte list option \<Rightarrow> bool \<Rightarrow> byte list \<Rightarrow> string list \<Rightarrow> byte list outcome \<Rightarrow> byte list outcome" where
  "create stub key out_ok entropy files packed =
     (if files = [] then Die ''no files to archive''
      else if \<not> out_ok then Die ''opening output file:''
      else (case generateRandomKey entropy of
              Die m \<Rightarrow> Die m
            | Return k \<Rightarrow>
               (case packed of
                  Die m \<Rightarrow> Die m
                | Return z \<Rightarrow> Return (stub @ generateBoundary @ k @ z))))"

text \<open>
  A byte string is unbordered when no proper suffix of it is also a prefix of it: then two
  occurrences of it cannot overlap.
\<close>

definition unbordered :: "'a list \<Rightarrow> bool" where
  "unbordered b = (\<forall>k. 0 < k \<and> k < length b \<longrightarrow> drop k b \<noteq> take (length b - k) b)"


section \<open>Paths\<close>

text \<open>
  Go strings and byte slices are sequences of bytes; a \<open>string\<close> (a list of 8-bit
  characters) holds a path, a name and the content of a file of the extraction directory.
  The functions of \<^verbatim>\<open>path/filepath\<close> are modelled for Unix: the separator is \<open>/\<close> and there
  is no volume name.
\<close>

text \<open>The elements of a path between its separators.\<close>

fun split_sep :: "string \<Rightarrow> string list" where
  "split_sep [] = [[]]"
| "split_sep (c # cs) =
     (if c = CHR ''/'' then [] # split_sep cs
      else (case split_sep cs of [] \<Rightarrow> [[c]] | e # es \<Rightarrow> (c # e) # es))"

text \<open>\<^verbatim>\<open>strings.Join(elems, "/")\<close>.\<close>

fun join_sep :: "string list \<Rightarrow> string" where
  "join_sep [] = []"
| "join_sep [e] = e"
| "join_sep (e # es) = e @ CHR ''/'' # join_sep es"

text \<open>
  The loop of \<^verbatim>\<open>filepath.Clean\<close> over the elements of the path, with the elements written
  so far in \<open>out\<close>: an empty element and \<open>.\<close> are dropped; \<open>..\<close> removes the last
  element written when there is one to remove, is kept in front of a path that is not
  rooted, and is dropped at the root. The elements written are a run of \<open>..\<close> followed by
  names, so there is something to remove exactly when the last element is not \<open>..\<close>.
\<close>

fun clean_elems :: "bool \<Rightarrow> string list \<Rightarrow> string list \<Rightarrow> string list" where
  "clean_elems rooted out [] = out"
| "clean_elems rooted out (e # es) =
     (if e = [] \<or> e = ''.'' then clean_elems rooted out es
      else if e = ''..'' then
        (if out \<noteq> [] \<and> last out \<noteq> ''..'' then clean_elems rooted (butlast out) es
         else if \<not> rooted then clean_elems rooted (out @ [''..'']) es
         else clean_elems rooted out es)
      else clean_elems rooted (out @ [e]) es)"

definition filepath_Clean :: "string \<Rightarrow> string" where
  "filepath_Clean path =
     (if path = [] then ''.''
      else
       (let rooted = (hd path = CHR ''/'');
            out = clean_elems rooted [] (split_sep path)
        in if rooted then CHR ''/'' # join_sep out
           else if out = [] then ''.''
           else join_sep out))"

text \<open>
  \<^verbatim>\<open>filepath.Join\<close> ignores the empty elements in front, joins the others with the
  separator and cleans the result.
\<close>

definition filepath_Join :: "string list \<Rightarrow> string" where
  "filepath_Join elem =
     (case dropWhile (\<lambda>e. e = []) elem of
        [] \<Rightarrow> []
      | es \<Rightarrow> filepath_Clean (join_sep es))"

text \<open>\<^verbatim>\<open>filepath.Dir\<close>: all but the last element of the path, cleaned.\<close>

definition filepath_Dir :: "string \<Rightarrow> string" where
  "filepath_Dir path = filepath_Clean (rev (dropWhile (\<lambda>c. c \<noteq> CHR ''/'') (rev path)))"

text \<open>The last element of a cleaned path: the name a directory listing shows for it.\<close>

definition entry_name :: "string \<Rightarrow> string" where
  "entry_name p = rev (takeWhile (\<lambda>c. c \<noteq> CHR ''/'') (rev p))"

text \<open>
  Whether the cleaned path \<open>p\<close> is the cleaned path \<open>d\<close> or lies below it.
\<close>

definition in_tree :: "string \<Rightarrow> string \<Rightarrow> bool" where
  "in_tree d p = (p = d \<or> prefix (if d = ''/'' then d else d @ ''/'') p)"

section \<open>Encoding and trimming\<close>

text \<open>\<^verbatim>\<open>hex.EncodeToString\<close>: two lower-case digits for every byte.\<close>

definition hextable :: string where
  "hextable = ''0123456789abcdef''"

definition hex_EncodeToString :: "byte list \<Rightarrow> string" where
  "hex_EncodeToString src =
     concat (map (\<lambda>v. [hextable ! unat (drop_bit 4 v), hextable ! unat (and v 0x0f)]) src)"

text \<open>
  \<^verbatim>\<open>strings.TrimSpace\<close> removes the leading and trailing white space, as Unicode defines
  it, of a UTF-8 string: the six ASCII characters and the encodings of U+0085, U+00A0,
  U+1680, U+2000 to U+200A, U+2028, U+2029, U+202F, U+205F and U+3000.
\<close>

definition space_runes :: "string list" where
  "space_runes =
     [[CHR 0x09], [CHR 0x0A], [CHR 0x0B], [CHR 0x0C], [CHR 0x0D], [CHR 0x20],
      [CHR 0xC2, CHR 0x85], [CHR 0xC2, CHR 0xA0], [CHR 0xE1, CHR 0x9A, CHR 0x80],
      [CHR 0xE2, CHR 0x80, CHR 0x80], [CHR 0xE2, CHR 0x80, CHR 0x81],
      [CHR 0xE2, CHR 0x80, CHR 0x82], [CHR 0xE2, CHR 0x80, CHR 0x83],
      [CHR 0xE2, CHR 0x80, CHR 0x84], [CHR 0xE2, CHR 0x80, CHR 0x85],
      [CHR 0xE2, CHR 0x80, CHR 0x86], [CHR 0xE2, CHR 0x80, CHR 0x87],
      [CHR 0xE2, CHR 0x80, CHR 0x88], [CHR 0xE2, CHR 0x80, CHR 0x89],
      [CHR 0xE2, CHR 0x80, CHR 0x8A], [CHR 0xE2, CHR 0x80, CHR 0xA8],
      [CHR 0xE2, CHR 0x80, CHR 0xA9], [CHR 0xE2, CHR 0x80, CHR 0xAF],
      [CHR 0xE2, CHR 0x81, CHR 0x9F], [CHR 0xE3, CHR 0x80, CHR 0x80]]"

text \<open>Removes, from the front of \<open>s\<close>, every string of \<open>ws\<close> as long as one is there.\<close>

function strip_prefixes :: "string list \<Rightarrow> string \<Rightarrow> string" where
  "strip_prefixes ws s =
     (case find (\<lambda>w. w \<noteq> [] \<and> prefix w s) ws of
        None \<Rightarrow> s
      | Some w \<Rightarrow> strip_prefixes ws (drop (length w) s))"
  by pat_completeness auto
termination
proof (relation "measure (\<lambda>(ws, s). length s)")
  show "wf (measure (\<lambda>(ws, s). length s))" by simp
next
  fix ws :: "string list" and s w :: string
  assume "find (\<lambda>w. w \<noteq> [] \<and> prefix w s) ws = Some w"
  then have "w \<noteq> []" and "prefix w s"
    by (auto simp: find_Some_iff)
  then have "s \<noteq> []" by auto
  with \<open>w \<noteq> []\<close> show "((ws, drop (length w) s), (ws, s)) \<in> measure (\<lambda>(ws, s). length s)"
    by simp
qed

declare strip_prefixes.simps [simp del]

definition strings_TrimSpace :: "string \<Rightarrow> string" where
  "strings_TrimSpace s =
     rev (strip_prefixes (map rev space_runes) (rev (strip_prefixes space_runes s)))"

text \<open>
  \<^verbatim>\<open>strings.ToLower\<close> on the ASCII letters. A string with a byte outside ASCII is mapped by
  Go to a string that again has such a byte or has a letter \<open>k\<close> or \<open>i\<close>, so for the
  comparison in \<^verbatim>\<open>isTruthy\<close> the ASCII letters decide.
\<close>

definition to_lower :: "char \<Rightarrow> char" where
  "to_lower c =
     (let n = (of_char c :: nat) in if 65 \<le> n \<and> n \<le> 90 then char_of (n + 32) else c)"

definition strings_ToLower :: "string \<Rightarrow> string" where
  "strings_ToLower s = map to_lower s"

definition isTruthy :: "string \<Rightarrow> bool" where
  "isTruthy s =
     (let l = strings_ToLower s in l = ''y'' \<or> l = ''yes'' \<or> l = ''true'' \<or> l = ''1'')"

section \<open>The file system\<close>

text \<open>
  The state of the file system is a list of the paths that exist, each cleaned, with what
  is there: a regular file with its mode and content, a directory with its permission
  bits, or a symbolic link with its target. A path has at most one entry. The model
  resolves a path by its text: it never follows a symbolic link, and an operation that
  would have to follow one fails with \<open>ELOOP\<close>. Permission checks and the umask are
  not modelled.
\<close>

type_synonym file_mode = "32 word"

datatype node = File file_mode string | Directory file_mode | Symlink string

type_synonym filesystem = "(string \<times> node) list"

datatype errno = ENOENT | EEXIST | ENOTDIR | EISDIR | EINVAL | ELOOP | EIO_tar

definition fs_lookup :: "filesystem \<Rightarrow> string \<Rightarrow> node option" where
  "fs_lookup fs path = map_of fs (filepath_Clean path)"

definition IsDir :: "node \<Rightarrow> bool" where
  "IsDir n = (case n of Directory m \<Rightarrow> True | _ \<Rightarrow> False)"

text \<open>\<^verbatim>\<open>os.Stat\<close> follows a symbolic link; \<^verbatim>\<open>os.Lstat\<close> does not.\<close>

definition os_Stat :: "filesystem \<Rightarrow> string \<Rightarrow> errno + node" where
  "os_Stat fs path =
     (case fs_lookup fs path of
        None \<Rightarrow> Inl ENOENT
      | Some (Symlink t) \<Rightarrow> Inl ELOOP
      | Some n \<Rightarrow> Inr n)"

definition os_Lstat :: "filesystem \<Rightarrow> string \<Rightarrow> errno + node" where
  "os_Lstat fs path =
     (case fs_lookup fs path of None \<Rightarrow> Inl ENOENT | Some n \<Rightarrow> Inr n)"

text \<open>What has to be true of the parent of a path for an entry to be made at the path.\<close>

definition parent_check :: "filesystem \<Rightarrow> string \<Rightarrow> errno option" where
  "parent_check fs p =
     (case map_of fs (filepath_Dir p) of
        None \<Rightarrow> Some ENOENT
      | Some (Directory m) \<Rightarrow> None
      | Some (File m c) \<Rightarrow> Some ENOTDIR
      | Some (Symlink t) \<Rightarrow> Some ELOOP)"

text \<open>\<^verbatim>\<open>os.Mkdir(path, perm)\<close>: the path must not exist and its parent must be a directory.\<close>

definition os_Mkdir :: "filesystem \<Rightarrow> string \<Rightarrow> file_mode \<Rightarrow> errno + filesystem" where
  "os_Mkdir fs path perm =
     (let p = filepath_Clean path in
      if map_of fs p \<noteq> None then Inl EEXIST
      else (case parent_check fs p of
              Some e \<Rightarrow> Inl e
            | None \<Rightarrow> Inr (fs @ [(p, Directory perm)])))"

text \<open>
  The parent that \<^verbatim>\<open>os.MkdirAll\<close> recurses on: the path without its trailing separators
  and without its last element.
\<close>

definition parent_prefix :: "string \<Rightarrow> string" where
  "parent_prefix path =
     rev (dropWhile (\<lambda>c. c \<noteq> CHR ''/'') (dropWhile (\<lambda>c. c = CHR ''/'') (rev path)))"

lemma parent_prefix_shorter:
  "parent_prefix path \<noteq> [] \<Longrightarrow> length (parent_prefix path) < length path"
proof -
  assume ne: "parent_prefix path \<noteq> []"
  then have "rev path \<noteq> []" by (auto simp: parent_prefix_def)
  then obtain c cs where r: "rev path = c # cs" by (cases "rev path") auto
  have l: "length path = Suc (length cs)"
    using r by (metis length_rev length_Cons)
  let ?p = "\<lambda>c. c = CHR ''/''" and ?q = "\<lambda>c. c \<noteq> CHR ''/''"
  have q: "\<And>xs. length (dropWhile ?q xs) \<le> length xs" by (rule length_dropWhile_le)
  have p: "length (dropWhile ?p cs) \<le> length cs" by (rule length_dropWhile_le)
  show ?thesis
  proof (cases "c = CHR ''/''")
    case True
    then have "parent_prefix path = rev (dropWhile ?q (dropWhile ?p cs))"
      by (simp add: parent_prefix_def r)
    then have "length (parent_prefix path) \<le> length (dropWhile ?p cs)"
      using q by simp
    with p l show ?thesis by linarith
  next
    case False
    then have "parent_prefix path = rev (dropWhile ?q cs)"
      by (simp add: parent_prefix_def r)
    then have "length (parent_prefix path) \<le> length cs"
      using q by simp
    with l show ?thesis by linarith
  qed
qed

text \<open>
  \<^verbatim>\<open>os.MkdirAll(path, perm)\<close>: nothing to do when the path is a directory, an error when
  it is something else; otherwise the parent is made first and then the directory. The
  result is the error, if any, and the file system with the directories made so far.
\<close>

function os_MkdirAll :: "filesystem \<Rightarrow> string \<Rightarrow> file_mode \<Rightarrow> errno option \<times> filesystem" where
  "os_MkdirAll fs path perm =
     (case os_Stat fs path of
        Inr n \<Rightarrow> if IsDir n then (None, fs) else (Some ENOTDIR, fs)
      | Inl e0 \<Rightarrow>
         (case (if parent_prefix path \<noteq> [] then os_MkdirAll fs (parent_prefix path) perm
                else (None, fs)) of
            (Some e, fs1) \<Rightarrow> (Some e, fs1)
          | (None, fs1) \<Rightarrow>
             (case os_Mkdir fs1 path perm of
                Inr fs2 \<Rightarrow> (None, fs2)
              | Inl e \<Rightarrow>
                 (case os_Lstat fs1 path of
                    Inr (Directory m) \<Rightarrow> (None, fs1)
                  | _ \<Rightarrow> (Some e, fs1)))))"
  by pat_completeness auto
termination
  by (relation "measure (\<lambda>(fs, path, perm). length path)") (auto simp: parent_prefix_shorter)

declare os_MkdirAll.simps [simp del]

text \<open>
  \<^verbatim>\<open>os.ReadDir\<close>: the names of the entries of a directory. The program reads only how
  many there are and removes each of them, so their order is left as the state has it.
\<close>

definition os_ReadDir :: "filesystem \<Rightarrow> string \<Rightarrow> errno + string list" where
  "os_ReadDir fs dir =
     (let d = filepath_Clean dir in
      case map_of fs d of
        None \<Rightarrow> Inl ENOENT
      | Some (Directory m) \<Rightarrow>
          Inr (map (\<lambda>(p, n). entry_name p) (filter (\<lambda>(p, n). p \<noteq> d \<and> filepath_Dir p = d) fs))
      | Some (File m c) \<Rightarrow> Inl ENOTDIR
      | Some (Symlink t) \<Rightarrow> Inl ELOOP)"

text \<open>
  \<^verbatim>\<open>os.RemoveAll\<close> removes the path and everything below it, and succeeds when the path
  does not exist; it refuses a path that ends in a dot element.
\<close>

definition endsWithDot :: "string \<Rightarrow> bool" where
  "endsWithDot path = (path = ''.'' \<or> suffix ''/.'' path)"

definition os_RemoveAll :: "filesystem \<Rightarrow> string \<Rightarrow> errno + filesystem" where
  "os_RemoveAll fs path =
     (if path = [] then Inr fs
      else if endsWithDot path then Inl EINVAL
      else Inr (filter (\<lambda>(p, n). \<not> in_tree (filepath_Clean path) p) fs))"

text \<open>\<^verbatim>\<open>os.Open\<close> for reading, and \<^verbatim>\<open>io.ReadAll\<close> of what was opened.\<close>

definition os_Open :: "filesystem \<Rightarrow> string \<Rightarrow> errno + node" where
  "os_Open fs path =
     (case fs_lookup fs path of
        None \<Rightarrow> Inl ENOENT
      | Some (Symlink t) \<Rightarrow> Inl ELOOP
      | Some n \<Rightarrow> Inr n)"

definition io_ReadAll :: "node \<Rightarrow> errno + string" where
  "io_ReadAll n = (case n of File m c \<Rightarrow> Inr c | _ \<Rightarrow> Inl EISDIR)"

text \<open>
  \<^verbatim>\<open>os.Create\<close>: an existing file is truncated, a new one is made with mode 0666 in a
  parent that is a directory.
\<close>

definition os_Create :: "filesystem \<Rightarrow> string \<Rightarrow> errno + filesystem" where
  "os_Create fs path =
     (let p = filepath_Clean path in
      case map_of fs p of
        Some (Directory m) \<Rightarrow> Inl EISDIR
      | Some (Symlink t) \<Rightarrow> Inl ELOOP
      | Some (File m c) \<Rightarrow> Inr (AList.update p (File m []) fs)
      | None \<Rightarrow>
         (case parent_check fs p of
            Some e \<Rightarrow> Inl e
          | None \<Rightarrow> Inr (fs @ [(p, File 0x1B6 [])])))"

text \<open>Writing to the file opened at a path, and \<^verbatim>\<open>(*os.File).Chmod\<close>.\<close>

definition file_Write :: "filesystem \<Rightarrow> string \<Rightarrow> string \<Rightarrow> errno + filesystem" where
  "file_Write fs path s =
     (let p = filepath_Clean path in
      case map_of fs p of
        Some (File m c) \<Rightarrow> Inr (AList.update p (File m (c @ s)) fs)
      | _ \<Rightarrow> Inl ENOENT)"

definition file_Chmod :: "filesystem \<Rightarrow> string \<Rightarrow> file_mode \<Rightarrow> errno + filesystem" where
  "file_Chmod fs path mode =
     (let p = filepath_Clean path in
      case map_of fs p of
        Some (File m c) \<Rightarrow> Inr (AList.update p (File mode c) fs)
      | _ \<Rightarrow> Inl ENOENT)"

text \<open>\<^verbatim>\<open>os.Symlink(target, path)\<close>: the path must not exist.\<close>

definition os_Symlink :: "filesystem \<Rightarrow> string \<Rightarrow> string \<Rightarrow> errno + filesystem" where
  "os_Symlink fs target path =
     (let p = filepath_Clean path in
      if map_of fs p \<noteq> None then Inl EEXIST
      else (case parent_check fs p of
              Some e \<Rightarrow> Inl e
            | None \<Rightarrow> Inr (fs @ [(p, Symlink target)])))"

text \<open>
  \<^verbatim>\<open>os.MkdirTemp("", "selfextract")\<close> makes a directory of mode 0700 with a fresh name in
  the directory for temporary files: \<open>name\<close> is the path the library chose.
\<close>

definition os_MkdirTemp :: "filesystem \<Rightarrow> string \<Rightarrow> errno + string \<times> filesystem" where
  "os_MkdirTemp fs name =
     (case os_Mkdir fs name 0x1C0 of
        Inl e \<Rightarrow> Inl e
      | Inr fs1 \<Rightarrow> Inr (name, fs1))"

section \<open>The payload as the container codec delivers it\<close>

text \<open>
  The tar reader over the zstd reader is a library. What the program sees of it is the
  sequence of results of \<^verbatim>\<open>tarRdr.Next()\<close>: a header with the content stream of its entry,
  or an error for a stream that cannot be read or decoded; the end of the sequence is
  \<^verbatim>\<open>io.EOF\<close>. A content stream either delivers all its bytes or delivers some and then
  fails. \<open>Bad_zstd\<close> is a payload on which \<^verbatim>\<open>zstd.NewReader\<close> itself reports an error.
\<close>

record tar_header =
  Name :: string
  Mode :: "64 word"
  Size :: "64 word"
  Typeflag :: char
  Linkname :: string

definition TypeReg :: char where "TypeReg = CHR ''0''"
definition TypeSymlink :: char where "TypeSymlink = CHR ''2''"
definition TypeDir :: char where "TypeDir = CHR ''5''"

datatype tar_body = Body string | Broken string

datatype tar_next = Entry tar_header tar_body | Corrupt

datatype payload_stream = Bad_zstd | Tar "tar_next list"

section \<open>The extraction engine\<close>

definition keyFileName :: string where
  "keyFileName = ''.selfextract.key''"

text \<open>
  The fields of \<^verbatim>\<open>selfExtractor\<close>. The channel \<^verbatim>\<open>exitCode\<close> is not a field of the model:
  the values sent on it are results of \<open>startup\<close> and \<open>signal_handler\<close> below.
\<close>

record selfExtractor =
  extractDir :: string
  skipExtract :: bool
  tempDir :: bool
  payload :: payload_stream
  key :: "byte list"

text \<open>
  What the process reads from its environment: the variables, each the empty string when
  unset, the command line \<^verbatim>\<open>os.Args\<close>, and the name \<^verbatim>\<open>os.MkdirTemp\<close> would choose.
\<close>

record environment =
  SELFEXTRACT_DIR :: string
  SELFEXTRACT_STARTUP :: string
  SELFEXTRACT_EXTRACT_ONLY :: string
  SELFEXTRACT_GRACE_TIMEOUT :: string
  Args :: "string list"
  temp_name :: string

text \<open>
  \<^verbatim>\<open>cleanupDir\<close> removes the contents of a directory but not the directory itself. It
  returns the error, if any, and the file system as it left it.
\<close>

fun remove_entries :: "filesystem \<Rightarrow> string \<Rightarrow> string list \<Rightarrow> errno option \<times> filesystem" where
  "remove_entries fs dir [] = (None, fs)"
| "remove_entries fs dir (name # entries) =
     (case os_RemoveAll fs (filepath_Join [dir, name]) of
        Inl e \<Rightarrow> (Some e, fs)
      | Inr fs1 \<Rightarrow> remove_entries fs1 dir entries)"

definition cleanupDir :: "filesystem \<Rightarrow> string \<Rightarrow> errno option \<times> filesystem" where
  "cleanupDir fs dir =
     (case os_ReadDir fs dir of
        Inl e \<Rightarrow> (Some e, fs)
      | Inr entries \<Rightarrow> remove_entries fs dir entries)"

text \<open>
  Every function of the engine that can die returns its outcome together with the file
  system as the process leaves it.
\<close>

definition prepareExtractDir ::
  "selfExtractor \<Rightarrow> environment \<Rightarrow> filesystem \<Rightarrow> selfExtractor outcome \<times> filesystem" where
  "prepareExtractDir se env fs =
     (let dir = SELFEXTRACT_DIR env in
      if dir = [] then
        (case os_MkdirTemp fs (temp_name env) of
           Inl e \<Rightarrow> (Die ''creating temporary extraction directory:'', fs)
         | Inr (name, fs1) \<Rightarrow> (Return (se\<lparr>extractDir := name, tempDir := True\<rparr>), fs1))
      else
       (let se1 = se\<lparr>extractDir := dir\<rparr> in
        case os_Stat fs dir of
          Inl e \<Rightarrow>
            (case os_MkdirAll fs dir 0x1ED of
               (Some e1, fs1) \<Rightarrow> (Die ''creating extraction directory:'', fs1)
             | (None, fs1) \<Rightarrow> (Return se1, fs1))
        | Inr stat \<Rightarrow>
            if \<not> IsDir stat then (Die ''extraction directory not a directory'', fs)
            else
             (case os_ReadDir fs dir of
                Inl e \<Rightarrow> (Die ''listing extraction dir:'', fs)
              | Inr entries \<Rightarrow>
                  if length entries = 0 then (Return se1, fs)
                  else
                   (case os_Open fs (filepath_Join [dir, keyFileName]) of
                      Inl e \<Rightarrow>
                        (Die ''opening key file (extraction dir must be empty or contain a valid key file):'', fs)
                    | Inr keyFile \<Rightarrow>
                       (case io_ReadAll keyFile of
                          Inl e \<Rightarrow>
                            (Die ''reading key file (extraction dir must be empty or contain a valid key file):'', fs)
                        | Inr keyData \<Rightarrow>
                            if hex_EncodeToString (key se1) = strings_TrimSpace keyData
                            then (Return (se1\<lparr>skipExtract := True\<rparr>), fs)
                            else
                             (case cleanupDir fs dir of
                                (Some e, fs1) \<Rightarrow> (Die ''cleaning extraction dir:'', fs1)
                              | (None, fs1) \<Rightarrow> (Return se1, fs1)))))))"

definition createFile :: "filesystem \<Rightarrow> string \<Rightarrow> errno option \<times> filesystem" where
  "createFile fs path =
     (case os_MkdirAll fs (filepath_Dir path) 0x1ED of
        (Some e, fs1) \<Rightarrow> (Some e, fs1)
      | (None, fs1) \<Rightarrow>
         (case os_Create fs1 path of
            Inl e \<Rightarrow> (Some e, fs1)
          | Inr fs2 \<Rightarrow> (None, fs2)))"

definition cleanupAndDie :: "string \<Rightarrow> filesystem \<Rightarrow> string \<Rightarrow> unit outcome \<times> filesystem" where
  "cleanupAndDie dir fs msg =
     (case cleanupDir fs dir of
        (Some e, fs1) \<Rightarrow> (Die ''got error: while cleaning up after:'', fs1)
      | (None, fs1) \<Rightarrow> (Die msg, fs1))"

text \<open>
  \<^verbatim>\<open>io.Copy(f, tarRdr)\<close> writes the content stream of the entry to the file just created:
  all of it, or what the stream delivered before it failed.
\<close>

definition io_Copy :: "filesystem \<Rightarrow> string \<Rightarrow> tar_body \<Rightarrow> errno option \<times> filesystem" where
  "io_Copy fs path body =
     (case body of
        Body s \<Rightarrow> (case file_Write fs path s of Inl e \<Rightarrow> (Some e, fs) | Inr fs1 \<Rightarrow> (None, fs1))
      | Broken s \<Rightarrow>
         (case file_Write fs path s of Inl e \<Rightarrow> (Some e, fs) | Inr fs1 \<Rightarrow> (Some EIO_tar, fs1)))"

text \<open>\<^verbatim>\<open>os.FileMode(hdr.Mode)\<close>: the conversion of an \<^verbatim>\<open>int64\<close> to a \<^verbatim>\<open>uint32\<close>.\<close>

definition FileMode :: "64 word \<Rightarrow> file_mode" where
  "FileMode m = ucast m"

definition getTarReader :: "selfExtractor \<Rightarrow> tar_next list outcome" where
  "getTarReader se =
     (case payload se of
        Bad_zstd \<Rightarrow> Die ''creating zstd reader:''
      | Tar items \<Rightarrow> Return items)"

text \<open>
  The loop of \<^verbatim>\<open>extract\<close> over the results of \<^verbatim>\<open>tarRdr.Next()\<close>, in the extraction
  directory \<open>dir\<close>.
\<close>

fun extract_loop :: "string \<Rightarrow> tar_next list \<Rightarrow> filesystem \<Rightarrow> unit outcome \<times> filesystem" where
  "extract_loop dir [] fs = (Return (), fs)"
| "extract_loop dir (Corrupt # tarRdr) fs = (Die ''reading embedded tar:'', fs)"
| "extract_loop dir (Entry hdr body # tarRdr) fs =
     (let name = filepath_Clean (Name hdr) in
      if name = ''.'' then extract_loop dir tarRdr fs
      else
       (let pathName = filepath_Join [dir, name] in
        if Typeflag hdr = TypeReg then
          (case createFile fs pathName of
             (Some e, fs1) \<Rightarrow> cleanupAndDie dir fs1 ''creating file:''
           | (None, fs1) \<Rightarrow>
              (case io_Copy fs1 pathName body of
                 (Some e, fs2) \<Rightarrow> cleanupAndDie dir fs2 ''writing file:''
               | (None, fs2) \<Rightarrow>
                  (case file_Chmod fs2 pathName (FileMode (Mode hdr)) of
                     Inl e \<Rightarrow> cleanupAndDie dir fs2 ''setting mode of file:''
                   | Inr fs3 \<Rightarrow> extract_loop dir tarRdr fs3)))
        else if Typeflag hdr = TypeDir then
          (case os_Mkdir fs pathName 0x1ED of
             Inl e \<Rightarrow> cleanupAndDie dir fs ''creating directory''
           | Inr fs1 \<Rightarrow> extract_loop dir tarRdr fs1)
        else if Typeflag hdr = TypeSymlink then
          (case os_Symlink fs (Linkname hdr) pathName of
             Inl e \<Rightarrow> cleanupAndDie dir fs ''creating symlink''
           | Inr fs1 \<Rightarrow> extract_loop dir tarRdr fs1)
        else cleanupAndDie dir fs ''unsupported file type in tar''))"

definition createKeyFile :: "selfExtractor \<Rightarrow> filesystem \<Rightarrow> unit outcome \<times> filesystem" where
  "createKeyFile se fs =
     (let path = filepath_Join [extractDir se, keyFileName] in
      case os_Create fs path of
        Inl e \<Rightarrow> (Die ''creating key file:'', fs)
      | Inr fs1 \<Rightarrow>
         (case file_Write fs1 path (hex_EncodeToString (key se)) of
            Inl e \<Rightarrow> (Die ''writing key file:'', fs1)
          | Inr fs2 \<Rightarrow> (Return (), fs2)))"

text \<open>
  The method \<^verbatim>\<open>extract\<close> of \<^verbatim>\<open>selfExtractor\<close>; the name \<open>extract\<close> is a command of
  Isabelle, so the method and the function of that name carry a suffix.
\<close>

definition extract_method :: "selfExtractor \<Rightarrow> filesystem \<Rightarrow> unit outcome \<times> filesystem" where
  "extract_method se fs =
     (if skipExtract se then (Return (), fs)
      else
       (case getTarReader se of
          Die m \<Rightarrow> (Die m, fs)
        | Return tarRdr \<Rightarrow>
           (case extract_loop (extractDir se) tarRdr fs of
              (Die m, fs1) \<Rightarrow> (Die m, fs1)
            | (Return u, fs1) \<Rightarrow> createKeyFile se fs1)))"

text \<open>
  Preparing the directory and extracting into it, one after the other, as the function
  \<^verbatim>\<open>extract\<close> of the package calls them.
\<close>

definition prepare_and_extract ::
  "selfExtractor \<Rightarrow> environment \<Rightarrow> filesystem \<Rightarrow> selfExtractor outcome \<times> filesystem" where
  "prepare_and_extract se env fs =
     (case prepareExtractDir se env fs of
        (Die m, fs1) \<Rightarrow> (Die m, fs1)
      | (Return se1, fs1) \<Rightarrow>
         (case extract_method se1 fs1 of
            (Die m, fs2) \<Rightarrow> (Die m, fs2)
          | (Return u, fs2) \<Rightarrow> (Return se1, fs2)))"

section \<open>The lifecycle controller\<close>

text \<open>
  A \<^verbatim>\<open>float64\<close> as \<^verbatim>\<open>strconv.ParseFloat\<close> returns it. The parser is a library: the model
  takes it as a function from the string to the value, \<open>None\<close> when it returns an error.
\<close>

datatype float64 = Finite real | PosInf | NegInf | NaN

text \<open>The comparison \<^verbatim>\<open>graceFl >= 0\<close>.\<close>

definition float_ge_zero :: "float64 \<Rightarrow> bool" where
  "float_ge_zero f = (case f of Finite x \<Rightarrow> 0 \<le> x | PosInf \<Rightarrow> True | NegInf \<Rightarrow> False | NaN \<Rightarrow> False)"

text \<open>
  \<^verbatim>\<open>time.Duration\<close> is an \<^verbatim>\<open>int64\<close> of nanoseconds. The conversion
  \<^verbatim>\<open>time.Duration(graceFl)\<close> of a \<^verbatim>\<open>float64\<close> discards the fraction; for a value that no
  \<^verbatim>\<open>int64\<close> represents the result depends on the platform, and the model gives the one
  of amd64, the least \<^verbatim>\<open>int64\<close>.
\<close>

type_synonym Duration = "64 word"

definition Second :: Duration where
  "Second = 1000000000"

definition Duration_of_float :: "float64 \<Rightarrow> Duration" where
  "Duration_of_float f =
     (case f of
        Finite x \<Rightarrow>
          (let t = (if 0 \<le> x then \<lfloor>x\<rfloor> else \<lceil>x\<rceil>) in
           if - (2 ^ 63) \<le> t \<and> t < 2 ^ 63 then word_of_int t else 0x8000000000000000)
      | _ \<Rightarrow> 0x8000000000000000)"

text \<open>
  The part of \<^verbatim>\<open>setupSignals\<close> that runs at once: it computes the grace period and
  registers for the signals. It returns the grace period that the goroutine it starts
  will use.
\<close>

definition setupSignals :: "(string \<Rightarrow> float64 option) \<Rightarrow> environment \<Rightarrow> Duration" where
  "setupSignals ParseFloat env =
     (let grace = 10 * Second;
          graceStr = SELFEXTRACT_GRACE_TIMEOUT env
      in if graceStr \<noteq> [] then
           (case ParseFloat graceStr of
              None \<Rightarrow> grace
            | Some graceFl \<Rightarrow>
                if float_ge_zero graceFl then Duration_of_float graceFl * Second else grace)
         else grace)"

text \<open>
  \<^verbatim>\<open>time.Sleep(d)\<close> returns at once for a duration that is negative or zero; the result is
  the time it pauses, in nanoseconds.
\<close>

definition time_Sleep :: "Duration \<Rightarrow> nat" where
  "time_Sleep d = (if sint d \<le> 0 then 0 else nat (sint d))"

text \<open>
  The goroutine of \<^verbatim>\<open>setupSignals\<close>, from the receipt of a signal on: the time it waits and
  the value it then sends on \<^verbatim>\<open>exitCode\<close>.
\<close>

definition signal_handler :: "Duration \<Rightarrow> nat \<times> int" where
  "signal_handler grace = ((if grace \<noteq> 0 then time_Sleep grace else 0), 2)"

text \<open>
  How the startup program ended, as the operating system reports it, and the error of
  \<^verbatim>\<open>cmd.Run()\<close>: \<^verbatim>\<open>nil\<close> (\<open>None\<close>) for a program that ran and exited with status 0, an
  \<^verbatim>\<open>*exec.ExitError\<close> for one that started and did not end so, another error for one that
  could not be started. \<^verbatim>\<open>ExitCode()\<close> is the exit status of a program that exited, and
  \<open>-1\<close> for one that a signal terminated.
\<close>

datatype wait_status = Exited nat | Signaled nat

datatype run_error = ExitError wait_status | OtherError

definition ExitCode :: "wait_status \<Rightarrow> int" where
  "ExitCode ws = (case ws of Exited n \<Rightarrow> int n | Signaled s \<Rightarrow> - 1)"

text \<open>
  \<^verbatim>\<open>startup\<close>: the value it sends on \<^verbatim>\<open>exitCode\<close>. Running a command belongs to the
  operating system and to the startup program: \<open>cmd_Run\<close> gives, for the path of the
  program and its arguments, what \<^verbatim>\<open>cmd.Run()\<close> returns.
\<close>

definition startup ::
  "selfExtractor \<Rightarrow> environment \<Rightarrow> (string \<Rightarrow> string list \<Rightarrow> run_error option) \<Rightarrow> int" where
  "startup se env cmd_Run =
     (if isTruthy (SELFEXTRACT_EXTRACT_ONLY env) then 0
      else
       (let startup0 = SELFEXTRACT_STARTUP env;
            startup1 = (if startup0 = [] then ''selfextract_startup'' else startup0);
            startupPath = filepath_Join [extractDir se, startup1]
        in case cmd_Run startupPath (tl (Args env)) of
             Some err \<Rightarrow>
               (case err of
                  ExitError ex \<Rightarrow> ExitCode ex
                | OtherError \<Rightarrow> 1)
           | None \<Rightarrow> 0))"

definition cleanup :: "selfExtractor \<Rightarrow> filesystem \<Rightarrow> filesystem" where
  "cleanup se fs =
     (if tempDir se then
        (case os_RemoveAll fs (extractDir se) of Inl e \<Rightarrow> fs | Inr fs1 \<Rightarrow> fs1)
      else fs)"

text \<open>
  The main goroutine receives one value from \<^verbatim>\<open>exitCode\<close>. Two goroutines send on the
  channel; which of the two sends is received is not decided by the program, and is an
  argument of the model.
\<close>

datatype sender = Startup_goroutine | Signal_goroutine

text \<open>
  The function \<^verbatim>\<open>extract\<close> of the package: the argument of \<^verbatim>\<open>os.Exit\<close>, and the file
  system after \<^verbatim>\<open>cleanup\<close>. What the startup program itself does to the file system is
  outside the model.
\<close>

definition extract_func ::
  "(string \<Rightarrow> float64 option) \<Rightarrow> environment \<Rightarrow> (string \<Rightarrow> string list \<Rightarrow> run_error option) \<Rightarrow>
   sender \<Rightarrow> payload_stream \<Rightarrow> byte list \<Rightarrow> filesystem \<Rightarrow> int outcome \<times> filesystem" where
  "extract_func ParseFloat env cmd_Run first pl ky fs =
     (let se = \<lparr>extractDir = [], skipExtract = False, tempDir = False, payload = pl, key = ky\<rparr>;
          grace = setupSignals ParseFloat env
      in case prepareExtractDir se env fs of
           (Die m, fs1) \<Rightarrow> (Die m, fs1)
         | (Return se1, fs1) \<Rightarrow>
            (case extract_method se1 fs1 of
               (Die m, fs2) \<Rightarrow> (Die m, fs2)
             | (Return u, fs2) \<Rightarrow>
                (let exit = (case first of
                               Startup_goroutine \<Rightarrow> startup se1 env cmd_Run
                             | Signal_goroutine \<Rightarrow> snd (signal_handler grace))
                 in (Return exit, cleanup se1 fs2))))"

text \<open>
  The exit status of the process as its parent reads it: the low eight bits of the
  argument of \<^verbatim>\<open>os.Exit\<close>, and 1 after \<^verbatim>\<open>log.Fatalln\<close>.
\<close>

definition exit_status :: "int outcome \<Rightarrow> int" where
  "exit_status r = (case r of Die m \<Rightarrow> 1 | Return code \<Rightarrow> code mod 256)"

section \<open>Concrete states for the examples\<close>

text \<open>
  A file system with \<open>/tmp\<close>, the same with an empty directory \<open>/tmp/d\<close>, an environment
  that names a persistent extraction directory, and an extractor with a key of sixteen
  bytes for a given payload.
\<close>

definition example_root :: filesystem where
  "example_root = [(''/'', Directory 0x1ED), (''/tmp'', Directory 0x1ED)]"

definition example_fs :: filesystem where
  "example_fs = example_root @ [(''/tmp/d'', Directory 0x1ED)]"

definition example_env :: "string \<Rightarrow> environment" where
  "example_env dir =
     \<lparr>SELFEXTRACT_DIR = dir, SELFEXTRACT_STARTUP = [], SELFEXTRACT_EXTRACT_ONLY = [],
      SELFEXTRACT_GRACE_TIMEOUT = [], Args = [''./myarchive'', ''-a'', ''1''],
      temp_name = ''/tmp/selfextract2731''\<rparr>"

definition example_key :: "byte list" where
  "example_key = [1, 2, 3, 4, 5, 6, 7, 8, 9, 10, 11, 12, 13, 14, 15, 16]"

definition example_se :: "tar_next list \<Rightarrow> selfExtractor" where
  "example_se items =
     \<lparr>extractDir = [], skipExtract = False, tempDir = False, payload = Tar items, key = example_key\<rparr>"

text \<open>The header of a regular file of mode 0644, and of a directory.\<close>

definition reg_hdr :: "string \<Rightarrow> tar_header" where
  "reg_hdr name = \<lparr>Name = name, Mode = 0x1A4, Size = 2, Typeflag = TypeReg, Linkname = []\<rparr>"

definition dir_hdr :: "string \<Rightarrow> tar_header" where
  "dir_hdr name = \<lparr>Name = name, Mode = 0x800001ED, Size = 0, Typeflag = TypeDir, Linkname = []\<rparr>"

text \<open>
  The directory \<open>/tmp/d\<close> with a file that no extraction put there; the state after the
  archive with the single file \<open>a\<close> was extracted into \<open>/tmp/d\<close>; and a regular file in
  the place of \<open>/tmp/d\<close>.
\<close>

definition example_stray :: filesystem where
  "example_stray = example_fs @ [(''/tmp/d/notes.txt'', File 0x1A4 ''keep me'')]"

definition example_extracted :: filesystem where
  "example_extracted = example_fs @
     [(''/tmp/d/a'', File 0x1A4 ''hi''),
      (''/tmp/d/.selfextract.key'', File 0x1B6 ''0102030405060708090a0b0c0d0e0f10'')]"

definition example_plain_file :: filesystem where
  "example_plain_file = example_root @ [(''/tmp/d'', File 0x1A4 ''not a directory'')]"

text \<open>A parser that knows four strings, with the values \<^verbatim>\<open>strconv.ParseFloat\<close> gives them.\<close>

definition example_ParseFloat :: "string \<Rightarrow> float64 option" where
  "example_ParseFloat s =
     (if s = ''0.5'' then Some (Finite (1 / 2))
      else if s = ''1.5'' then Some (Finite (3 / 2))
      else if s = ''-3'' then Some (Finite (- 3))
      else None)"

section \<open>Facts about the boundary search and the reader\<close>

lemma length_generateBoundary: "length generateBoundary = 64" by (simp add: generateBoundary_def)

lemma Index_None_iff: "bytes_Index s sep = None \<longleftrightarrow> (\<forall>j\<le>length s. \<not> prefix sep (drop j s))"
proof (induction s)
  case Nil
  then show ?case by auto
next
  case (Cons x xs)
  show ?case
  proof
    assume a: "bytes_Index (x # xs) sep = None"
    then have np: "\<not> prefix sep (x # xs)" and r: "bytes_Index xs sep = None"
      by (auto split: if_splits)
    show "\<forall>j\<le>length (x # xs). \<not> prefix sep (drop j (x # xs))"
    proof (intro allI impI)
      fix j assume "j \<le> length (x # xs)"
      then show "\<not> prefix sep (drop j (x # xs))"
        using np r Cons.IH by (cases j) auto
    qed
  next
    assume a: "\<forall>j\<le>length (x # xs). \<not> prefix sep (drop j (x # xs))"
    then have "\<not> prefix sep (x # xs)" by (metis drop0 le0)
    moreover have "\<forall>j\<le>length xs. \<not> prefix sep (drop j xs)"
    proof (intro allI impI)
      fix j assume "j \<le> length xs"
      then have "Suc j \<le> length (x # xs)" by simp
      with a have "\<not> prefix sep (drop (Suc j) (x # xs))" by blast
      then show "\<not> prefix sep (drop j xs)" by simp
    qed
    ultimately show "bytes_Index (x # xs) sep = None" using Cons.IH by simp
  qed
qed

lemma Index_first:
  "prefix sep (drop i s) \<Longrightarrow> i \<le> length s \<Longrightarrow> (\<forall>j<i. \<not> prefix sep (drop j s)) \<Longrightarrow> bytes_Index s sep = Some i"
proof (induction s arbitrary: i)
  case Nil
  then show ?case by auto
next
  case (Cons x xs)
  show ?case
  proof (cases i)
    case 0
    with Cons.prems show ?thesis by simp
  next
    case (Suc k)
    with Cons.prems have "\<not> prefix sep (x # xs)" by (metis drop0 zero_less_Suc)
    moreover have "bytes_Index xs sep = Some k"
    proof (rule Cons.IH)
      show "prefix sep (drop k xs)" using Cons.prems Suc by simp
      show "k \<le> length xs" using Cons.prems Suc by simp
      show "\<forall>j<k. \<not> prefix sep (drop j xs)"
      proof (intro allI impI)
        fix j assume "j < k"
        then have "Suc j < i" using Suc by simp
        with Cons.prems have "\<not> prefix sep (drop (Suc j) (x # xs))" by blast
        then show "\<not> prefix sep (drop j xs)" by simp
      qed
    qed
    ultimately show ?thesis using Suc by simp
  qed
qed

lemma generateBoundary_unbordered: "unbordered generateBoundary"
proof -
  have ub: "list_all (\<lambda>k. drop k generateBoundary \<noteq> take (64 - k) generateBoundary) [1..<64]"
    by code_simp
  show ?thesis
    unfolding unbordered_def length_generateBoundary
  proof (intro allI impI)
    fix k :: nat assume "0 < k \<and> k < 64"
    then have "k \<in> set [1..<64]" by simp
    with ub show "drop k generateBoundary \<noteq> take (64 - k) generateBoundary"
      unfolding list_all_iff by blast
  qed
qed

lemma Index_stub_boundary:
  assumes none: "bytes_Index s sep = None" and ub: "unbordered sep"
  shows "bytes_Index (s @ sep @ r) sep = Some (length s)"
proof (rule Index_first)
  show "prefix sep (drop (length s) (s @ sep @ r))" by simp
  show "length s \<le> length (s @ sep @ r)" by simp
  show "\<forall>j<length s. \<not> prefix sep (drop j (s @ sep @ r))"
  proof (intro allI impI notI)
    fix j assume j: "j < length s" and p: "prefix sep (drop j (s @ sep @ r))"
    from none j have np: "\<not> prefix sep (drop j s)"
      unfolding Index_None_iff by simp
    from p have p': "prefix sep (drop j s @ sep @ r)" using j by simp
    define k where "k = length s - j"
    have k: "0 < k" "length (drop j s) = k" using j by (simp_all add: k_def)
    have klt: "k < length sep"
    proof (rule ccontr)
      assume "\<not> k < length sep"
      then have "length sep \<le> length (drop j s)" using k(2) by simp
      moreover have "prefix (drop j s) (drop j s @ sep @ r)" by simp
      ultimately have "prefix sep (drop j s)"
        using p' prefix_length_prefix by blast
      with np show False by blast
    qed
    from p' obtain t where t: "drop j s @ sep @ r = sep @ t" by (auto simp: prefix_def)
    have "take (length sep) (drop j s @ sep @ r) = sep" using t by simp
    then have e: "drop j s @ take (length sep - k) sep = sep" using k(2) klt by simp
    have "drop k sep = drop k (drop j s @ take (length sep - k) sep)" using e by simp
    also have "\<dots> = take (length sep - k) sep" using k(2) by simp
    finally show False using ub k(1) klt unfolding unbordered_def by blast
  qed
qed

lemma Index_missing_byte:
  assumes "x \<in> set sep" "x \<notin> set s"
  shows "bytes_Index s sep = None"
  unfolding Index_None_iff
proof (intro allI impI notI)
  fix j assume "prefix sep (drop j s)"
  then have "set sep \<subseteq> set (drop j s)" by (auto simp: prefix_def)
  then have "set sep \<subseteq> set s" using set_drop_subset by fast
  with assms show False by blast
qed

lemma Index_zeros: "bytes_Index (replicate n 0) generateBoundary = None"
proof (rule Index_missing_byte)
  show "(0x29 :: byte) \<in> set generateBoundary" by (simp add: generateBoundary_def)
  show "(0x29 :: byte) \<notin> set (replicate n 0)" by simp
qed

lemma create_Return:
  assumes "create stub k0 ok entropy files packed = Return archive"
  shows "\<exists>z. packed = Return z \<and> 16 \<le> length entropy \<and>
     archive = stub @ generateBoundary @ take 16 entropy @ z"
  using assms
  by (auto simp: create_def generateRandomKey_def keyLength_def split: if_splits outcome.splits)

lemma readSelf_found:
  assumes "file_Read self (maxBoundaryOffset + keyLength) = (n, None)"
    and "take n (contents self) @ drop n (replicate (maxBoundaryOffset + keyLength) 0) = arr"
    and "bytes_Index (take maxBoundaryOffset arr) generateBoundary = Some b"
    and "\<not> seek_fails self"
  shows "readSelf (Some self) =
     Return (take b arr, Some (drop (b + 64 + 16) (contents self)),
             Some (drop (b + 64) (take (b + 64 + 16) arr)))"
  unfolding readSelf_def Let_def option.case length_replicate assms(1) prod.case assms(2) assms(3)
  using assms(4) by (simp add: length_generateBoundary keyLength_def)

lemma readSelf_not_found:
  assumes "file_Read self (maxBoundaryOffset + keyLength) = (n, None)"
    and "take n (contents self) @ drop n (replicate (maxBoundaryOffset + keyLength) 0) = arr"
    and "bytes_Index (take maxBoundaryOffset arr) generateBoundary = None"
  shows "readSelf (Some self) = Return (take n arr, None, None)"
  unfolding readSelf_def Let_def option.case length_replicate assms(1) prod.case assms(2) assms(3)
  by simp

lemma readSelf_layout:
  assumes len: "length ky = 16"
    and none: "bytes_Index stub generateBoundary = None"
    and cap: "length stub + 64 \<le> maxBoundaryOffset"
  shows "readSelf (Some (regular_file (stub @ generateBoundary @ ky @ pl)))
           = Return (stub, Some pl, Some ky)"
proof -
  let ?file = "stub @ generateBoundary @ ky @ pl"
  let ?N = "maxBoundaryOffset + keyLength"
  define n where "n = min ?N (length ?file)"
  have n_ge: "length stub + 80 \<le> n"
    using cap len by (simp add: n_def keyLength_def length_generateBoundary)
  define arr where "arr = take n (contents (regular_file ?file)) @ drop n (replicate ?N (0::byte))"
  have rd: "file_Read (regular_file ?file) ?N = (n, None)"
    by (simp add: file_Read_def regular_file_def n_def keyLength_def generateBoundary_def)
  have pre: "take (length stub + 80) arr = stub @ generateBoundary @ ky"
    using n_ge len by (simp add: arr_def regular_file_def length_generateBoundary)
  have "take (length stub + 64) (take maxBoundaryOffset arr) = take (length stub + 64) (take (length stub + 80) arr)"
    using cap by (simp add: min_def)
  also have "\<dots> = stub @ generateBoundary"
    unfolding pre by (simp add: length_generateBoundary)
  finally have "take maxBoundaryOffset arr = stub @ generateBoundary @ drop (length stub + 64) (take maxBoundaryOffset arr)"
    by (metis append_take_drop_id append.assoc)
  then have idx: "bytes_Index (take maxBoundaryOffset arr) generateBoundary = Some (length stub)"
    using Index_stub_boundary [OF none generateBoundary_unbordered] by metis
  have ky: "drop (length stub + 64) (take (length stub + 80) arr) = ky"
    unfolding pre by (simp add: length_generateBoundary)
  have "take (length stub) arr = take (length stub) (take (length stub + 80) arr)"
    by (simp add: min_def)
  also have "\<dots> = stub"
    unfolding pre by simp
  finally have stub: "take (length stub) arr = stub" .
  have pay: "drop (length stub + 80) ?file = pl"
    using len by (simp add: length_generateBoundary)
  have ns: "\<not> seek_fails (regular_file ?file)" by (simp add: regular_file_def)
  have c: "contents (regular_file ?file) = ?file" by (simp add: regular_file_def)
  show ?thesis
    using readSelf_found [OF rd arr_def [symmetric] idx ns] ky stub pay
    by (simp add: c add.assoc)
qed

section \<open>Facts about the engine and the controller\<close>

lemma prepareExtractDir_nonempty:
  assumes "SELFEXTRACT_DIR env \<noteq> []"
    and "os_Stat fs (SELFEXTRACT_DIR env) = Inr n" and "IsDir n"
    and "os_ReadDir fs (SELFEXTRACT_DIR env) = Inr entries" and "entries \<noteq> []"
  shows "prepareExtractDir se env fs =
     (case os_Open fs (filepath_Join [SELFEXTRACT_DIR env, keyFileName]) of
        Inl e \<Rightarrow> (Die ''opening key file (extraction dir must be empty or contain a valid key file):'', fs)
      | Inr keyFile \<Rightarrow>
         (case io_ReadAll keyFile of
            Inl e \<Rightarrow> (Die ''reading key file (extraction dir must be empty or contain a valid key file):'', fs)
          | Inr keyData \<Rightarrow>
              if hex_EncodeToString (key se) = strings_TrimSpace keyData
              then (Return (se\<lparr>extractDir := SELFEXTRACT_DIR env, skipExtract := True\<rparr>), fs)
              else
               (case cleanupDir fs (SELFEXTRACT_DIR env) of
                  (Some e, fs1) \<Rightarrow> (Die ''cleaning extraction dir:'', fs1)
                | (None, fs1) \<Rightarrow> (Return (se\<lparr>extractDir := SELFEXTRACT_DIR env\<rparr>), fs1))))"
  using assms by (simp add: prepareExtractDir_def Let_def cong: sum.case_cong)

lemma os_Mkdir_makes_dir:
  assumes "os_Mkdir fs path perm = Inr fs1"
  shows "fs_lookup fs1 path = Some (Directory perm)"
  using assms
  by (auto simp: os_Mkdir_def fs_lookup_def Let_def map_add_def split: if_splits option.splits)

lemma os_MkdirAll_makes_dir:
  assumes "os_MkdirAll fs path perm = (None, fs1)"
  shows "\<exists>m. fs_lookup fs1 path = Some (Directory m)"
proof (cases "os_Stat fs path")
  case (Inr n)
  with assms have "IsDir n" and "fs1 = fs"
    by (auto simp: os_MkdirAll.simps [of fs path perm] split: if_splits)
  with Inr show ?thesis
    by (auto simp: os_Stat_def IsDir_def split: option.splits node.splits)
next
  case (Inl e0)
  define r where "r = (if parent_prefix path \<noteq> [] then os_MkdirAll fs (parent_prefix path) perm else (None, fs))"
  obtain e1 fsp where r: "r = (e1, fsp)" by (cases r)
  have eq: "os_MkdirAll fs path perm =
     (case r of (Some e, fs1) \<Rightarrow> (Some e, fs1)
      | (None, fs1) \<Rightarrow>
         (case os_Mkdir fs1 path perm of
            Inr fs2 \<Rightarrow> (None, fs2)
          | Inl e \<Rightarrow> (case os_Lstat fs1 path of Inr (Directory m) \<Rightarrow> (None, fs1) | _ \<Rightarrow> (Some e, fs1))))"
    unfolding r_def using Inl by (subst os_MkdirAll.simps) simp
  show ?thesis
  proof (cases "os_Mkdir fsp path perm")
    case (Inr fs2)
    with assms eq r have "fs1 = fs2" by (auto split: option.splits)
    with Inr show ?thesis using os_Mkdir_makes_dir by blast
  next
    case (Inl e)
    with assms eq r obtain m where "os_Lstat fsp path = Inr (Directory m)" and "fs1 = fsp"
      by (auto split: option.splits sum.splits node.splits)
    then show ?thesis
      by (auto simp: os_Lstat_def split: option.splits)
  qed
qed

lemma extract_func_Return:
  assumes "extract_func ParseFloat env cmd_Run first pl ky fs = (Return code, fs')"
  shows "\<exists>se1. code = (case first of
                 Startup_goroutine \<Rightarrow> startup se1 env cmd_Run
               | Signal_goroutine \<Rightarrow> snd (signal_handler (setupSignals ParseFloat env)))"
  using assms
  by (auto simp: extract_func_def Let_def split: prod.splits outcome.splits)

lemma os_Create_lookup:
  assumes "os_Create fs path = Inr fs1"
  shows "\<exists>m. fs_lookup fs1 path = Some (File m [])"
  using assms
  by (auto simp: os_Create_def fs_lookup_def Let_def update_conv' map_add_def
      split: option.splits node.splits)

lemma createFile_lookup:
  assumes "createFile fs path = (None, fs1)"
  shows "\<exists>m. fs_lookup fs1 path = Some (File m [])"
  using assms os_Create_lookup
  by (auto simp: createFile_def split: prod.splits option.splits sum.splits)

lemma file_Write_lookup:
  assumes "file_Write fs path s = Inr fs1" and "fs_lookup fs path = Some (File m c)"
  shows "fs_lookup fs1 path = Some (File m (c @ s))"
  using assms
  by (auto simp: file_Write_def fs_lookup_def Let_def update_conv' split: option.splits node.splits)

lemma io_Copy_lookup:
  assumes "io_Copy fs path (Body s) = (None, fs1)" and "fs_lookup fs path = Some (File m c)"
  shows "fs_lookup fs1 path = Some (File m (c @ s))"
  using assms file_Write_lookup
  by (auto simp: io_Copy_def split: sum.splits)

lemma file_Chmod_lookup:
  assumes "file_Chmod fs path mode = Inr fs1" and "fs_lookup fs path = Some (File m c)"
  shows "fs_lookup fs1 path = Some (File mode c)"
  using assms
  by (auto simp: file_Chmod_def fs_lookup_def Let_def update_conv' split: option.splits node.splits)

lemma cleanupAndDie_not_Return: "cleanupAndDie dir fs msg \<noteq> (Return u, fs1)"
  by (auto simp: cleanupAndDie_def split: prod.splits option.splits)

lemma extract_loop_regular_entry:
  assumes ne: "filepath_Clean (Name hdr) \<noteq> ''.''"
    and reg: "Typeflag hdr = TypeReg"
    and ok: "extract_loop dir [Entry hdr (Body s)] fs = (Return (), fs')"
  shows "fs_lookup fs' (filepath_Join [dir, filepath_Clean (Name hdr)]) = Some (File (FileMode (Mode hdr)) s)"
proof -
  let ?p = "filepath_Join [dir, filepath_Clean (Name hdr)]"
  obtain e1 fs1 where c: "createFile fs ?p = (e1, fs1)" by (cases "createFile fs ?p")
  obtain e2 fs2 where w: "io_Copy fs1 ?p (Body s) = (e2, fs2)" by (cases "io_Copy fs1 ?p (Body s)")
  have e1: "e1 = None"
    using ok ne reg c cleanupAndDie_not_Return by (cases e1) (auto simp: Let_def)
  have e2: "e2 = None"
    using ok ne reg c w e1 cleanupAndDie_not_Return by (cases e2) (auto simp: Let_def)
  have ch: "file_Chmod fs2 ?p (FileMode (Mode hdr)) = Inr fs'"
    using ok ne reg c w e1 e2 cleanupAndDie_not_Return
    by (cases "file_Chmod fs2 ?p (FileMode (Mode hdr))") (auto simp: Let_def)
  from createFile_lookup c e1 obtain m where l1: "fs_lookup fs1 ?p = Some (File m [])" by blast
  from io_Copy_lookup [OF w [unfolded e2] l1] have l2: "fs_lookup fs2 ?p = Some (File m s)" by simp
  from file_Chmod_lookup [OF ch l2] show ?thesis .
qed


section \<open>Claims about the self-image reader and the builder\<close>

text \<open>
  Claim C3, as amended. For every archive the builder produces from a stub that contains
  no occurrence of the boundary and whose length plus the 64 bytes of the boundary is
  within the search cap, the file is the stub, then the boundary, then the 16-byte key,
  then the payload; the first occurrence of the boundary is at the length of the stub,
  and the reader returns the same stub, the key found at that offset plus 64 and the
  payload that starts at that offset plus 64 plus 16.
\<close>

theorem create_readSelf_layout:
  assumes built: "create stub k0 out_ok entropy files packed = Return archive"
    and none: "bytes_Index stub generateBoundary = None"
    and cap: "length stub + length generateBoundary \<le> maxBoundaryOffset"
  shows "\<exists>ky pl.
           length ky = keyLength \<and> packed = Return pl \<and>
           archive = stub @ generateBoundary @ ky @ pl \<and>
           bytes_Index archive generateBoundary = Some (length stub) \<and>
           ky = take keyLength (drop (length stub + length generateBoundary) archive) \<and>
           pl = drop (length stub + length generateBoundary + keyLength) archive \<and>
           readSelf (Some (regular_file archive)) = Return (stub, Some pl, Some ky)"
proof -
  from create_Return [OF built] obtain z where z: "packed = Return z"
    and e: "16 \<le> length entropy"
    and a: "archive = stub @ generateBoundary @ take 16 entropy @ z"
    by blast
  let ?key = "take 16 entropy"
  have len: "length ?key = 16" using e by simp
  have cap': "length stub + 64 \<le> maxBoundaryOffset"
    using cap by (simp add: length_generateBoundary)
  have idx: "bytes_Index archive generateBoundary = Some (length stub)"
    unfolding a by (rule Index_stub_boundary [OF none generateBoundary_unbordered])
  have rd: "readSelf (Some (regular_file archive)) = Return (stub, Some z, Some ?key)"
    unfolding a by (rule readSelf_layout [OF len none cap'])
  have k: "?key = take keyLength (drop (length stub + length generateBoundary) archive)"
    using len by (simp add: a keyLength_def)
  have p: "z = drop (length stub + length generateBoundary + keyLength) archive"
    using len by (simp add: a keyLength_def)
  show ?thesis
    using len z a idx rd k p unfolding keyLength_def by blast
qed

text \<open>The theorem at a stub of three bytes.\<close>

theorem create_readSelf_layout_witness:
  "create [1, 2, 3] None True (replicate 16 7) [''a''] (Return [9, 9])
      = Return ([1, 2, 3] @ generateBoundary @ replicate 16 7 @ [9, 9]) \<and>
   bytes_Index [1, 2, 3] generateBoundary = None \<and>
   length [1 :: byte, 2, 3] + length generateBoundary \<le> maxBoundaryOffset \<and>
   readSelf (Some (regular_file ([1, 2, 3] @ generateBoundary @ replicate 16 7 @ [9, 9])))
      = Return ([1, 2, 3], Some [9, 9], Some (replicate 16 7))"
proof -
  let ?A = "[1, 2, 3] @ generateBoundary @ replicate 16 7 @ [9 :: byte, 9]"
  have h1: "create [1, 2, 3] None True (replicate 16 7) [''a''] (Return [9, 9]) = Return ?A"
    by (simp add: create_def generateRandomKey_def keyLength_def)
  have h2: "bytes_Index [1, 2, 3] generateBoundary = None"
    by (simp add: generateBoundary_def)
  have h3: "length [1 :: byte, 2, 3] + length generateBoundary \<le> maxBoundaryOffset"
    by (simp add: length_generateBoundary maxBoundaryOffset_def)
  from create_readSelf_layout [OF h1 h2 h3] obtain ky pl
    where "Return [9, 9] = Return pl" and "?A = [1, 2, 3] @ generateBoundary @ ky @ pl"
      and "readSelf (Some (regular_file ?A)) = Return ([1, 2, 3], Some pl, Some ky)"
    by blast
  then have "readSelf (Some (regular_file ?A)) = Return ([1, 2, 3], Some [9, 9], Some (replicate 16 7))"
    by simp
  with h1 h2 h3 show ?thesis by blast
qed

text \<open>
  Claim C3 as stated fails: a stub of exactly \<open>maxBoundaryOffset\<close> zero bytes is within
  the search cap and holds no boundary, but the boundary written after it lies outside
  the first \<open>maxBoundaryOffset\<close> bytes, where the reader searches. The reader returns
  builder mode, with the first 100000016 bytes of the file as the stub.
\<close>

theorem create_readSelf_layout_counterexample:
  "create (replicate 100000000 0) None True (replicate 16 7) [''a''] (Return [9, 9])
      = Return (replicate 100000000 0 @ generateBoundary @ replicate 16 7 @ [9, 9]) \<and>
   bytes_Index (replicate 100000000 0) generateBoundary = None \<and>
   length (replicate 100000000 (0 :: byte)) \<le> maxBoundaryOffset \<and>
   readSelf (Some (regular_file (replicate 100000000 0 @ generateBoundary @ replicate 16 7 @ [9, 9])))
      = Return (replicate 100000000 0 @ take 16 generateBoundary, None, None)"
proof -
  let ?A = "replicate 100000000 0 @ generateBoundary @ replicate 16 7 @ [9 :: byte, 9]"
  have h1: "create (replicate 100000000 0) None True (replicate 16 7) [''a''] (Return [9, 9]) = Return ?A"
    by (simp add: create_def generateRandomKey_def keyLength_def)
  have h2: "bytes_Index (replicate 100000000 0) generateBoundary = None"
    by (rule Index_zeros)
  have h3: "length (replicate 100000000 (0 :: byte)) \<le> maxBoundaryOffset"
    by (simp add: maxBoundaryOffset_def)
  have rd: "file_Read (regular_file ?A) (maxBoundaryOffset + keyLength) = (100000016, None)"
    by (simp add: file_Read_def regular_file_def maxBoundaryOffset_def keyLength_def length_generateBoundary)
  have arr: "take 100000016 (contents (regular_file ?A)) @ drop 100000016 (replicate (maxBoundaryOffset + keyLength) 0)
      = replicate 100000000 0 @ take 16 generateBoundary"
    by (simp add: regular_file_def maxBoundaryOffset_def keyLength_def length_generateBoundary)
  have idx: "bytes_Index (take maxBoundaryOffset (replicate 100000000 0 @ take 16 generateBoundary)) generateBoundary = None"
    using Index_zeros [of 100000000] by (simp add: maxBoundaryOffset_def)
  have "readSelf (Some (regular_file ?A)) = Return (replicate 100000000 0 @ take 16 generateBoundary, None, None)"
    using readSelf_not_found [OF rd arr idx] by (simp add: length_generateBoundary)
  with h1 h2 h3 show ?thesis by blast
qed

text \<open>
  Claim C2 on the code. A file of 100000017 zero bytes fills the whole buffer, so the cap
  is exhausted before the end of the file, and no boundary is found: \<^verbatim>\<open>readSelf\<close>
  returns builder mode where the claim has a fatal error. \<^verbatim>\<open>bufFull\<close> is set when the read
  reports \<^verbatim>\<open>io.EOF\<close>, which a read does only when it delivers no byte: the empty file is
  the one the reader refuses.
\<close>

theorem readSelf_eof_flag_inverted:
  "readSelf (Some (regular_file (replicate 100000017 0))) = Return (replicate 100000016 0, None, None) \<and>
   readSelf (Some (regular_file [])) = Die ''boundary not found before byte''"
proof -
  let ?F = "replicate 100000017 (0 :: byte)"
  have rd: "file_Read (regular_file ?F) (maxBoundaryOffset + keyLength) = (100000016, None)"
    by (simp add: file_Read_def regular_file_def maxBoundaryOffset_def keyLength_def)
  have arr: "take 100000016 (contents (regular_file ?F)) @ drop 100000016 (replicate (maxBoundaryOffset + keyLength) 0)
      = replicate 100000016 0"
    by (simp add: regular_file_def maxBoundaryOffset_def keyLength_def)
  have idx: "bytes_Index (take maxBoundaryOffset (replicate 100000016 0)) generateBoundary = None"
    using Index_zeros [of 100000000] by (simp add: maxBoundaryOffset_def)
  have big: "readSelf (Some (regular_file ?F)) = Return (replicate 100000016 0, None, None)"
    using readSelf_not_found [OF rd arr idx] by simp
  have rd0: "file_Read (regular_file []) (maxBoundaryOffset + keyLength) = (0, Some EOF)"
    by (simp add: file_Read_def regular_file_def maxBoundaryOffset_def keyLength_def)
  have idx0: "bytes_Index (take maxBoundaryOffset (replicate (maxBoundaryOffset + keyLength) 0)) generateBoundary = None"
    unfolding take_replicate by (rule Index_zeros)
  have empty: "readSelf (Some (regular_file [])) = Die ''boundary not found before byte''"
    unfolding readSelf_def Let_def option.case length_replicate rd0 prod.case
    using idx0 by (simp add: regular_file_def)
  from big empty show ?thesis by blast
qed

section \<open>Claims about the extraction engine\<close>

text \<open>
  Claim C1, as amended. For every persistent extraction directory that exists, is not
  empty and does not contain the marker file, \<^verbatim>\<open>prepareExtractDir\<close> dies on opening the
  marker file and leaves the file system as it was: nothing is erased and no extraction
  follows.
\<close>

theorem prepareExtractDir_missing_marker:
  assumes "SELFEXTRACT_DIR env \<noteq> []"
    and "os_Stat fs (SELFEXTRACT_DIR env) = Inr n" and "IsDir n"
    and "os_ReadDir fs (SELFEXTRACT_DIR env) = Inr entries" and "entries \<noteq> []"
    and "fs_lookup fs (filepath_Join [SELFEXTRACT_DIR env, keyFileName]) = None"
  shows "prepareExtractDir se env fs =
     (Die ''opening key file (extraction dir must be empty or contain a valid key file):'', fs)"
proof -
  have "os_Open fs (filepath_Join [SELFEXTRACT_DIR env, keyFileName]) = Inl ENOENT"
    using assms(6) by (simp add: os_Open_def)
  then show ?thesis
    unfolding prepareExtractDir_nonempty [OF assms(1-5)] by simp
qed

text \<open>The theorem at the directory \<open>/tmp/d\<close> that holds only \<open>notes.txt\<close>.\<close>

theorem prepareExtractDir_missing_marker_witness:
  "SELFEXTRACT_DIR (example_env ''/tmp/d'') \<noteq> [] \<and>
   os_Stat example_stray ''/tmp/d'' = Inr (Directory 0x1ED) \<and>
   os_ReadDir example_stray ''/tmp/d'' = Inr [''notes.txt''] \<and>
   fs_lookup example_stray (filepath_Join [''/tmp/d'', keyFileName]) = None \<and>
   prepareExtractDir (example_se []) (example_env ''/tmp/d'') example_stray =
     (Die ''opening key file (extraction dir must be empty or contain a valid key file):'', example_stray)"
proof -
  let ?env = "example_env ''/tmp/d''"
  have d: "SELFEXTRACT_DIR ?env = ''/tmp/d''" by (simp add: example_env_def)
  have h1: "SELFEXTRACT_DIR ?env \<noteq> []" by (simp add: example_env_def)
  have h2: "os_Stat example_stray (SELFEXTRACT_DIR ?env) = Inr (Directory 0x1ED)"
    unfolding d by code_simp
  have h3: "IsDir (Directory 0x1ED)" by (simp add: IsDir_def)
  have h4: "os_ReadDir example_stray (SELFEXTRACT_DIR ?env) = Inr [''notes.txt'']"
    unfolding d by code_simp
  have h5: "[''notes.txt''] \<noteq> []" by simp
  have h6: "fs_lookup example_stray (filepath_Join [SELFEXTRACT_DIR ?env, keyFileName]) = None"
    unfolding d by code_simp
  from prepareExtractDir_missing_marker [OF h1 h2 h3 h4 h5 h6, of "example_se []"]
  show ?thesis using h1 h2 h4 h6 unfolding d by blast
qed

text \<open>
  Claim C1 as stated fails: \<open>/tmp/d\<close> exists, holds \<open>notes.txt\<close> and no marker file;
  \<^verbatim>\<open>prepareExtractDir\<close> aborts, and \<open>notes.txt\<close> is still there.
\<close>

theorem prepareExtractDir_missing_marker_counterexample:
  "os_Stat example_stray ''/tmp/d'' = Inr (Directory 0x1ED) \<and>
   os_ReadDir example_stray ''/tmp/d'' = Inr [''notes.txt''] \<and>
   os_Open example_stray (filepath_Join [''/tmp/d'', keyFileName]) = Inl ENOENT \<and>
   prepareExtractDir (example_se [Entry (reg_hdr ''a'') (Body ''hi'')]) (example_env ''/tmp/d'') example_stray =
     (Die ''opening key file (extraction dir must be empty or contain a valid key file):'', example_stray) \<and>
   fs_lookup example_stray ''/tmp/d/notes.txt'' = Some (File 0x1A4 ''keep me'')"
  by code_simp


text \<open>
  Claim C4. For every persistent extraction directory that is not empty and contains a
  marker file whose trimmed content equals the lower-case hex encoding of the key of the
  archive, \<^verbatim>\<open>prepareExtractDir\<close> sets \<^verbatim>\<open>skipExtract\<close> and the method \<^verbatim>\<open>extract\<close> returns
  at once: the run ends with the file system it started with, so nothing is written in
  the directory and the marker file is not rewritten.
\<close>

theorem matching_marker_skips_extraction:
  assumes "SELFEXTRACT_DIR env \<noteq> []"
    and "os_Stat fs (SELFEXTRACT_DIR env) = Inr n" and "IsDir n"
    and "os_ReadDir fs (SELFEXTRACT_DIR env) = Inr entries" and "entries \<noteq> []"
    and "fs_lookup fs (filepath_Join [SELFEXTRACT_DIR env, keyFileName]) = Some (File m keyData)"
    and "strings_TrimSpace keyData = hex_EncodeToString (key se)"
  shows "prepareExtractDir se env fs =
           (Return (se\<lparr>extractDir := SELFEXTRACT_DIR env, skipExtract := True\<rparr>), fs) \<and>
         extract_method (se\<lparr>extractDir := SELFEXTRACT_DIR env, skipExtract := True\<rparr>) fs = (Return (), fs) \<and>
         prepare_and_extract se env fs =
           (Return (se\<lparr>extractDir := SELFEXTRACT_DIR env, skipExtract := True\<rparr>), fs)"
proof -
  let ?se = "se\<lparr>extractDir := SELFEXTRACT_DIR env, skipExtract := True\<rparr>"
  have "os_Open fs (filepath_Join [SELFEXTRACT_DIR env, keyFileName]) = Inr (File m keyData)"
    using assms(6) by (simp add: os_Open_def)
  then have p: "prepareExtractDir se env fs = (Return ?se, fs)"
    unfolding prepareExtractDir_nonempty [OF assms(1-5)]
    using assms(7) by (simp add: io_ReadAll_def)
  have e: "extract_method ?se fs = (Return (), fs)"
    by (simp add: extract_method_def)
  from p e show ?thesis by (simp add: prepare_and_extract_def)
qed

text \<open>
  The theorem at the state a first run leaves: the first run extracts \<open>a\<close> and writes the
  marker file, the second run changes nothing.
\<close>

theorem matching_marker_skips_extraction_witness:
  "prepare_and_extract (example_se [Entry (reg_hdr ''a'') (Body ''hi'')]) (example_env ''/tmp/d'') example_fs
     = (Return ((example_se [Entry (reg_hdr ''a'') (Body ''hi'')])\<lparr>extractDir := ''/tmp/d''\<rparr>), example_extracted) \<and>
   os_ReadDir example_extracted ''/tmp/d'' = Inr [''a'', ''.selfextract.key''] \<and>
   prepare_and_extract (example_se [Entry (reg_hdr ''a'') (Body ''hi'')]) (example_env ''/tmp/d'') example_extracted
     = (Return ((example_se [Entry (reg_hdr ''a'') (Body ''hi'')])\<lparr>extractDir := ''/tmp/d'', skipExtract := True\<rparr>), example_extracted)"
proof -
  let ?env = "example_env ''/tmp/d''"
  let ?se = "example_se [Entry (reg_hdr ''a'') (Body ''hi'')]"
  have d: "SELFEXTRACT_DIR ?env = ''/tmp/d''" by (simp add: example_env_def)
  have first: "prepare_and_extract ?se ?env example_fs = (Return (?se\<lparr>extractDir := ''/tmp/d''\<rparr>), example_extracted)"
    by code_simp
  have h1: "SELFEXTRACT_DIR ?env \<noteq> []" by (simp add: example_env_def)
  have h2: "os_Stat example_extracted (SELFEXTRACT_DIR ?env) = Inr (Directory 0x1ED)"
    unfolding d by code_simp
  have h3: "IsDir (Directory 0x1ED)" by (simp add: IsDir_def)
  have h4: "os_ReadDir example_extracted (SELFEXTRACT_DIR ?env) = Inr [''a'', ''.selfextract.key'']"
    unfolding d by code_simp
  have h5: "[''a'', ''.selfextract.key''] \<noteq> []" by simp
  have h6: "fs_lookup example_extracted (filepath_Join [SELFEXTRACT_DIR ?env, keyFileName])
      = Some (File 0x1B6 ''0102030405060708090a0b0c0d0e0f10'')"
    unfolding d by code_simp
  have h7: "strings_TrimSpace ''0102030405060708090a0b0c0d0e0f10'' = hex_EncodeToString (key ?se)"
    by code_simp
  from matching_marker_skips_extraction [OF h1 h2 h3 h4 h5 h6 h7]
  have "prepare_and_extract ?se ?env example_extracted
     = (Return (?se\<lparr>extractDir := ''/tmp/d'', skipExtract := True\<rparr>), example_extracted)"
    unfolding d by blast
  with first h4 show ?thesis unfolding d by blast
qed


text \<open>
  Claim C7 on the code. The payload delivers the file \<open>a\<close> and then an error from
  \<^verbatim>\<open>tarRdr.Next()\<close>: the process dies and \<open>a\<close> stays in the extraction directory. The
  branches that fail to create a file, a directory or a symbolic link call
  \<^verbatim>\<open>cleanupAndDie\<close>, as the last part shows for a directory that cannot be created: there
  the directory is emptied.
\<close>

theorem extract_corrupt_entry_leaves_files:
  "extract_method ((example_se [Entry (reg_hdr ''a'') (Body ''hi''), Corrupt])\<lparr>extractDir := ''/tmp/d''\<rparr>) example_fs
     = (Die ''reading embedded tar:'', example_fs @ [(''/tmp/d/a'', File 0x1A4 ''hi'')]) \<and>
   os_ReadDir (example_fs @ [(''/tmp/d/a'', File 0x1A4 ''hi'')]) ''/tmp/d'' = Inr [''a''] \<and>
   extract_method ((example_se [Entry (reg_hdr ''a'') (Body ''hi''), Entry (dir_hdr ''a'') (Body [])])\<lparr>extractDir := ''/tmp/d''\<rparr>) example_fs
     = (Die ''creating directory'', example_fs)"
  by code_simp


text \<open>
  Claim C8, as amended. For a persistent destination path on which \<^verbatim>\<open>os.Stat\<close> fails,
  \<^verbatim>\<open>prepareExtractDir\<close> calls \<^verbatim>\<open>os.MkdirAll\<close>: when that succeeds the path is a directory
  and the engine proceeds to extraction, when it fails the process dies. For a path that
  exists and is not a directory the process dies and the file system is as it was.
\<close>

theorem prepareExtractDir_absent_or_not_directory:
  assumes "SELFEXTRACT_DIR env \<noteq> []"
  shows "(\<forall>e fs1. os_Stat fs (SELFEXTRACT_DIR env) = Inl e \<and>
            os_MkdirAll fs (SELFEXTRACT_DIR env) 0x1ED = (None, fs1) \<longrightarrow>
            prepareExtractDir se env fs = (Return (se\<lparr>extractDir := SELFEXTRACT_DIR env\<rparr>), fs1) \<and>
            (\<exists>m. fs_lookup fs1 (SELFEXTRACT_DIR env) = Some (Directory m))) \<and>
         (\<forall>e e1 fs1. os_Stat fs (SELFEXTRACT_DIR env) = Inl e \<and>
            os_MkdirAll fs (SELFEXTRACT_DIR env) 0x1ED = (Some e1, fs1) \<longrightarrow>
            prepareExtractDir se env fs = (Die ''creating extraction directory:'', fs1)) \<and>
         (\<forall>n. os_Stat fs (SELFEXTRACT_DIR env) = Inr n \<and> \<not> IsDir n \<longrightarrow>
            prepareExtractDir se env fs = (Die ''extraction directory not a directory'', fs))"
  using assms os_MkdirAll_makes_dir [of fs "SELFEXTRACT_DIR env" "0x1ED"]
  by (auto simp: prepareExtractDir_def Let_def)

text \<open>
  The theorem at \<open>/tmp/d/new\<close>, which does not exist, and at \<open>/tmp/d\<close> where it is a
  regular file.
\<close>

theorem prepareExtractDir_absent_or_not_directory_witness:
  "SELFEXTRACT_DIR (example_env ''/tmp/d/new'') \<noteq> [] \<and>
   os_Stat example_root ''/tmp/d/new'' = Inl ENOENT \<and>
   os_MkdirAll example_root ''/tmp/d/new'' 0x1ED =
     (None, example_fs @ [(''/tmp/d/new'', Directory 0x1ED)]) \<and>
   prepareExtractDir (example_se []) (example_env ''/tmp/d/new'') example_root =
     (Return ((example_se [])\<lparr>extractDir := ''/tmp/d/new''\<rparr>), example_fs @ [(''/tmp/d/new'', Directory 0x1ED)]) \<and>
   os_Stat example_plain_file ''/tmp/d'' = Inr (File 0x1A4 ''not a directory'') \<and>
   prepareExtractDir (example_se []) (example_env ''/tmp/d'') example_plain_file =
     (Die ''extraction directory not a directory'', example_plain_file)"
proof -
  let ?env = "example_env ''/tmp/d/new''" and ?env' = "example_env ''/tmp/d''"
  have d: "SELFEXTRACT_DIR ?env = ''/tmp/d/new''" and d': "SELFEXTRACT_DIR ?env' = ''/tmp/d''"
    by (simp_all add: example_env_def)
  have h1: "SELFEXTRACT_DIR ?env \<noteq> []" and h1': "SELFEXTRACT_DIR ?env' \<noteq> []"
    by (simp_all add: example_env_def)
  have s: "os_Stat example_root (SELFEXTRACT_DIR ?env) = Inl ENOENT"
    unfolding d by code_simp
  have m: "os_MkdirAll example_root (SELFEXTRACT_DIR ?env) 0x1ED =
     (None, example_fs @ [(''/tmp/d/new'', Directory 0x1ED)])"
    unfolding d by code_simp
  have s': "os_Stat example_plain_file (SELFEXTRACT_DIR ?env') = Inr (File 0x1A4 ''not a directory'')"
    unfolding d' by code_simp
  have nd: "\<not> IsDir (File 0x1A4 ''not a directory'')" by (simp add: IsDir_def)
  from prepareExtractDir_absent_or_not_directory [OF h1, of example_root "example_se []"] s m
  have a: "prepareExtractDir (example_se []) ?env example_root =
     (Return ((example_se [])\<lparr>extractDir := ''/tmp/d/new''\<rparr>), example_fs @ [(''/tmp/d/new'', Directory 0x1ED)])"
    unfolding d by blast
  from prepareExtractDir_absent_or_not_directory [OF h1', of example_plain_file "example_se []"] s' nd
  have b: "prepareExtractDir (example_se []) ?env' example_plain_file =
     (Die ''extraction directory not a directory'', example_plain_file)"
    unfolding d' by blast
  from h1 s m a s' b show ?thesis unfolding d d' by blast
qed

text \<open>
  Claim C8 as stated fails: where \<open>/tmp/d\<close> is a regular file, no directory is created and
  the process dies.
\<close>

theorem prepareExtractDir_not_directory_counterexample:
  "os_Stat example_plain_file ''/tmp/d'' = Inr (File 0x1A4 ''not a directory'') \<and>
   \<not> IsDir (File 0x1A4 ''not a directory'') \<and>
   prepareExtractDir (example_se [Entry (reg_hdr ''a'') (Body ''hi'')]) (example_env ''/tmp/d'') example_plain_file =
     (Die ''extraction directory not a directory'', example_plain_file)"
  by code_simp


text \<open>
  Claim C9. The loop skips an entry whose cleaned name is \<open>.\<close>. An entry for a regular
  file whose cleaned name is anything else is written at the path that joins the
  extraction directory and the cleaned name, wherever that path lies: the loop compares
  it with nothing. For the name \<open>../x\<close> and the directory \<open>/tmp/d\<close> that path is
  \<open>/tmp/x\<close>, outside the directory.
\<close>

theorem extract_loop_no_containment_check:
  "(\<forall>dir (hdr :: tar_header) body tarRdr fs. filepath_Clean (Name hdr) = ''.'' \<longrightarrow>
      extract_loop dir (Entry hdr body # tarRdr) fs = extract_loop dir tarRdr fs) \<and>
   (\<forall>dir (hdr :: tar_header) s fs fs'. filepath_Clean (Name hdr) \<noteq> ''.'' \<and> Typeflag hdr = TypeReg \<and>
      extract_loop dir [Entry hdr (Body s)] fs = (Return (), fs') \<longrightarrow>
      fs_lookup fs' (filepath_Join [dir, filepath_Clean (Name hdr)]) = Some (File (FileMode (Mode hdr)) s)) \<and>
   filepath_Join [''/tmp/d'', filepath_Clean ''../x''] = ''/tmp/x'' \<and>
   \<not> in_tree ''/tmp/d'' ''/tmp/x''"
proof (intro conjI allI impI)
  fix dir and hdr :: tar_header and body tarRdr fs
  assume "filepath_Clean (Name hdr) = ''.''"
  then show "extract_loop dir (Entry hdr body # tarRdr) fs = extract_loop dir tarRdr fs"
    by simp
next
  fix dir and hdr :: tar_header and s fs fs'
  assume "filepath_Clean (Name hdr) \<noteq> ''.'' \<and> Typeflag hdr = TypeReg \<and>
      extract_loop dir [Entry hdr (Body s)] fs = (Return (), fs')"
  then show "fs_lookup fs' (filepath_Join [dir, filepath_Clean (Name hdr)]) = Some (File (FileMode (Mode hdr)) s)"
    using extract_loop_regular_entry by blast
next
  show "filepath_Join [''/tmp/d'', filepath_Clean ''../x''] = ''/tmp/x''" by code_simp
  show "\<not> in_tree ''/tmp/d'' ''/tmp/x''" by code_simp
qed

text \<open>
  The theorem at the payload that holds \<open>./\<close> and \<open>../x\<close>: the first entry is skipped,
  the second is written to \<open>/tmp/x\<close>, and the extraction ends with the marker file.
\<close>

theorem extract_loop_no_containment_check_witness:
  "extract_method ((example_se [Entry (dir_hdr ''./'') (Body []), Entry (reg_hdr ''../x'') (Body ''hi'')])\<lparr>extractDir := ''/tmp/d''\<rparr>) example_fs
     = (Return (), example_fs @ [(''/tmp/x'', File 0x1A4 ''hi''),
          (''/tmp/d/.selfextract.key'', File 0x1B6 ''0102030405060708090a0b0c0d0e0f10'')]) \<and>
   filepath_Clean (Name (dir_hdr ''./'')) = ''.'' \<and>
   filepath_Clean (Name (reg_hdr ''../x'')) = ''../x'' \<and>
   Typeflag (reg_hdr ''../x'') = TypeReg \<and>
   extract_loop ''/tmp/d'' [Entry (dir_hdr ''./'') (Body []), Entry (reg_hdr ''../x'') (Body ''hi'')] example_fs
     = (Return (), example_fs @ [(''/tmp/x'', File 0x1A4 ''hi'')]) \<and>
   fs_lookup (example_fs @ [(''/tmp/x'', File 0x1A4 ''hi'')]) ''/tmp/x'' = Some (File 0x1A4 ''hi'') \<and>
   \<not> in_tree ''/tmp/d'' ''/tmp/x''"
proof -
  let ?h = "reg_hdr ''../x''" and ?d = "dir_hdr ''./''"
  let ?fs' = "example_fs @ [(''/tmp/x'', File 0x1A4 ''hi'')]"
  have m: "extract_method ((example_se [Entry ?d (Body []), Entry ?h (Body ''hi'')])\<lparr>extractDir := ''/tmp/d''\<rparr>) example_fs
     = (Return (), ?fs' @ [(''/tmp/d/.selfextract.key'', File 0x1B6 ''0102030405060708090a0b0c0d0e0f10'')])"
    by code_simp
  have c0: "filepath_Clean (Name ?d) = ''.''" by code_simp
  have c1: "filepath_Clean (Name ?h) = ''../x''" by code_simp
  have c1': "filepath_Clean (Name ?h) \<noteq> ''.''" unfolding c1 by simp
  have t: "Typeflag ?h = TypeReg" by (simp add: reg_hdr_def)
  have r: "extract_loop ''/tmp/d'' [Entry ?h (Body ''hi'')] example_fs = (Return (), ?fs')"
    by code_simp
  have md: "FileMode (Mode ?h) = 0x1A4" by code_simp
  from extract_loop_no_containment_check
  have skip: "extract_loop ''/tmp/d'' (Entry ?d (Body []) # [Entry ?h (Body ''hi'')]) example_fs
      = extract_loop ''/tmp/d'' [Entry ?h (Body ''hi'')] example_fs"
    and wr: "fs_lookup ?fs' (filepath_Join [''/tmp/d'', filepath_Clean (Name ?h)]) = Some (File (FileMode (Mode ?h)) ''hi'')"
    and j: "filepath_Join [''/tmp/d'', filepath_Clean ''../x''] = ''/tmp/x''"
    and out: "\<not> in_tree ''/tmp/d'' ''/tmp/x''"
    using c0 c1' t r by blast+
  have j': "filepath_Join [''/tmp/d'', ''../x''] = ''/tmp/x''" by code_simp
  from wr have "fs_lookup ?fs' ''/tmp/x'' = Some (File 0x1A4 ''hi'')"
    unfolding c1 j' md .
  with m c0 c1 t skip r out show ?thesis by simp
qed

section \<open>Claims about the lifecycle controller\<close>

text \<open>
  Claim C5, as amended. Let \<open>run\<close> be what \<^verbatim>\<open>cmd.Run()\<close> returns for the startup program.
  When the process reaches \<^verbatim>\<open>os.Exit\<close>, its argument is 2 when the value received from
  the channel is the one the signal goroutine sends. When it is the one \<^verbatim>\<open>startup\<close>
  sends, the argument is 0 in extract-only mode and for a program that exited with
  status 0, N for a program that exited with status N, 1 for a program that could not be
  started, and \<open>-1\<close>, which the parent reads as 255, for a program that a signal
  terminated.
\<close>

theorem extract_func_exit_code:
  assumes "extract_func ParseFloat env cmd_Run first pl ky fs = (Return code, fs')"
    and "\<forall>path args. cmd_Run path args = run"
  shows "(first = Signal_goroutine \<longrightarrow> code = 2) \<and>
         (first = Startup_goroutine \<and> isTruthy (SELFEXTRACT_EXTRACT_ONLY env) \<longrightarrow> code = 0) \<and>
         (first = Startup_goroutine \<and> \<not> isTruthy (SELFEXTRACT_EXTRACT_ONLY env) \<and> run = None \<longrightarrow> code = 0) \<and>
         (\<forall>n. first = Startup_goroutine \<and> \<not> isTruthy (SELFEXTRACT_EXTRACT_ONLY env) \<and>
               run = Some (ExitError (Exited n)) \<longrightarrow> code = int n) \<and>
         (first = Startup_goroutine \<and> \<not> isTruthy (SELFEXTRACT_EXTRACT_ONLY env) \<and>
               run = Some OtherError \<longrightarrow> code = 1) \<and>
         (\<forall>s. first = Startup_goroutine \<and> \<not> isTruthy (SELFEXTRACT_EXTRACT_ONLY env) \<and>
               run = Some (ExitError (Signaled s)) \<longrightarrow> code = - 1 \<and> exit_status (Return code) = 255)"
  using extract_func_Return [OF assms(1)] assms(2)
  by (auto simp: startup_def Let_def signal_handler_def ExitCode_def exit_status_def)

text \<open>
  The theorem at a startup program that exits with status 3, and at a run in which the
  signal goroutine is the sender.
\<close>

theorem extract_func_exit_code_witness:
  "extract_func example_ParseFloat (example_env ''/tmp/d'') (\<lambda>path args. Some (ExitError (Exited 3)))
      Startup_goroutine (Tar [Entry (reg_hdr ''a'') (Body ''hi'')]) example_key example_fs =
        (Return 3, example_extracted) \<and>
   \<not> isTruthy (SELFEXTRACT_EXTRACT_ONLY (example_env ''/tmp/d'')) \<and>
   extract_func example_ParseFloat (example_env ''/tmp/d'') (\<lambda>path args. None)
      Signal_goroutine (Tar [Entry (reg_hdr ''a'') (Body ''hi'')]) example_key example_fs =
        (Return 2, example_extracted)"
proof -
  let ?env = "example_env ''/tmp/d''"
  let ?run = "\<lambda>(path :: string) (args :: string list). Some (ExitError (Exited 3))"
  let ?idle = "\<lambda>(path :: string) (args :: string list). None :: run_error option"
  let ?pl = "Tar [Entry (reg_hdr ''a'') (Body ''hi'')]"
  let ?se1 = "\<lparr>extractDir = ''/tmp/d'', skipExtract = False, tempDir = False, payload = ?pl, key = example_key\<rparr>"
  have pe: "prepareExtractDir \<lparr>extractDir = [], skipExtract = False, tempDir = False, payload = ?pl, key = example_key\<rparr> ?env example_fs
     = (Return ?se1, example_fs)"
    by code_simp
  have ex: "extract_method ?se1 example_fs = (Return (), example_extracted)"
    by code_simp
  have h: "extract_func example_ParseFloat ?env ?run Startup_goroutine ?pl example_key example_fs
     = (Return (startup ?se1 ?env ?run), example_extracted)"
    using pe ex by (simp add: extract_func_def Let_def cleanup_def)
  have h2: "extract_func example_ParseFloat ?env ?idle Signal_goroutine ?pl example_key example_fs
     = (Return (snd (signal_handler (setupSignals example_ParseFloat ?env))), example_extracted)"
    using pe ex by (simp add: extract_func_def Let_def cleanup_def)
  have nt: "\<not> isTruthy (SELFEXTRACT_EXTRACT_ONLY ?env)" by code_simp
  have r: "\<forall>path args. ?run path args = Some (ExitError (Exited 3))" by simp
  have r2: "\<forall>path args. ?idle path args = None" by simp
  from extract_func_exit_code [OF h r] nt have "startup ?se1 ?env ?run = 3" by simp
  moreover from extract_func_exit_code [OF h2 r2]
  have "snd (signal_handler (setupSignals example_ParseFloat ?env)) = 2" by simp
  ultimately show ?thesis using h h2 nt by simp
qed

text \<open>
  Claim C5 as stated fails: a startup program terminated by signal 9 has no exit status,
  and the controller exits with \<open>-1\<close>, not with 1.
\<close>

theorem startup_signaled_counterexample:
  "\<not> isTruthy (SELFEXTRACT_EXTRACT_ONLY (example_env ''/tmp/d'')) \<and>
   startup (example_se []) (example_env ''/tmp/d'') (\<lambda>path args. Some (ExitError (Signaled 9))) = - 1 \<and>
   startup (example_se []) (example_env ''/tmp/d'') (\<lambda>path args. Some (ExitError (Signaled 9))) \<noteq> 1 \<and>
   fst (extract_func example_ParseFloat (example_env ''/tmp/d'') (\<lambda>path args. Some (ExitError (Signaled 9)))
      Startup_goroutine (Tar []) example_key example_fs) = Return (- 1) \<and>
   exit_status (Return (- 1)) = 255"
  by code_simp

text \<open>
  Claim C6 on the code. With the grace timeout set to \<open>0.5\<close> the grace period is zero
  and the goroutine sends 2 without waiting; with \<open>1.5\<close> it waits one second. The
  conversion to \<^verbatim>\<open>time.Duration\<close> comes before the multiplication by \<^verbatim>\<open>time.Second\<close> and
  drops the fraction of the configured seconds.
\<close>

theorem setupSignals_truncates_fraction:
  "setupSignals example_ParseFloat ((example_env ''/tmp/d'')\<lparr>SELFEXTRACT_GRACE_TIMEOUT := ''0.5''\<rparr>) = 0 \<and>
   signal_handler 0 = (0, 2) \<and>
   setupSignals example_ParseFloat ((example_env ''/tmp/d'')\<lparr>SELFEXTRACT_GRACE_TIMEOUT := ''1.5''\<rparr>) = Second \<and>
   signal_handler Second = (1000000000, 2)"
  by (simp add: setupSignals_def example_ParseFloat_def example_env_def float_ge_zero_def
      Duration_of_float_def signal_handler_def time_Sleep_def Second_def)


text \<open>
  Claim C10. When the grace timeout is set to a string that does not parse as a float, or
  that parses to a negative number, the grace period is the default of ten seconds: the
  goroutine waits 10000000000 nanoseconds before it sends 2. \<^verbatim>\<open>setupSignals\<close> has no
  call of \<^verbatim>\<open>die\<close>, and its model no outcome but the grace period.
\<close>

theorem setupSignals_ignores_bad_value:
  assumes "SELFEXTRACT_GRACE_TIMEOUT env \<noteq> []"
    and "ParseFloat (SELFEXTRACT_GRACE_TIMEOUT env) = None \<or>
         ParseFloat (SELFEXTRACT_GRACE_TIMEOUT env) = Some NegInf \<or>
         (\<exists>x. x < 0 \<and> ParseFloat (SELFEXTRACT_GRACE_TIMEOUT env) = Some (Finite x))"
  shows "setupSignals ParseFloat env = 10 * Second \<and>
         signal_handler (setupSignals ParseFloat env) = (10000000000, 2)"
proof -
  have "setupSignals ParseFloat env = 10 * Second"
    using assms by (auto simp: setupSignals_def float_ge_zero_def)
  then show ?thesis
    by (simp add: signal_handler_def time_Sleep_def Second_def)
qed

text \<open>The theorem at the strings \<open>soon\<close>, which does not parse, and \<open>-3\<close>.\<close>

theorem setupSignals_ignores_bad_value_witness:
  "SELFEXTRACT_GRACE_TIMEOUT ((example_env ''/tmp/d'')\<lparr>SELFEXTRACT_GRACE_TIMEOUT := ''soon''\<rparr>) \<noteq> [] \<and>
   example_ParseFloat ''soon'' = None \<and>
   setupSignals example_ParseFloat ((example_env ''/tmp/d'')\<lparr>SELFEXTRACT_GRACE_TIMEOUT := ''soon''\<rparr>) = 10 * Second \<and>
   example_ParseFloat ''-3'' = Some (Finite (- 3)) \<and>
   setupSignals example_ParseFloat ((example_env ''/tmp/d'')\<lparr>SELFEXTRACT_GRACE_TIMEOUT := ''-3''\<rparr>) = 10 * Second \<and>
   signal_handler (10 * Second) = (10000000000, 2)"
proof -
  let ?e1 = "(example_env ''/tmp/d'')\<lparr>SELFEXTRACT_GRACE_TIMEOUT := ''soon''\<rparr>"
  let ?e2 = "(example_env ''/tmp/d'')\<lparr>SELFEXTRACT_GRACE_TIMEOUT := ''-3''\<rparr>"
  have a1: "SELFEXTRACT_GRACE_TIMEOUT ?e1 \<noteq> []" and a2: "SELFEXTRACT_GRACE_TIMEOUT ?e2 \<noteq> []"
    by simp_all
  have p1: "example_ParseFloat ''soon'' = None" and p2: "example_ParseFloat ''-3'' = Some (Finite (- 3))"
    by (simp_all add: example_ParseFloat_def)
  have b1: "example_ParseFloat (SELFEXTRACT_GRACE_TIMEOUT ?e1) = None \<or>
         example_ParseFloat (SELFEXTRACT_GRACE_TIMEOUT ?e1) = Some NegInf \<or>
         (\<exists>x. x < 0 \<and> example_ParseFloat (SELFEXTRACT_GRACE_TIMEOUT ?e1) = Some (Finite x))"
    using p1 by simp
  have b2: "example_ParseFloat (SELFEXTRACT_GRACE_TIMEOUT ?e2) = None \<or>
         example_ParseFloat (SELFEXTRACT_GRACE_TIMEOUT ?e2) = Some NegInf \<or>
         (\<exists>x. x < 0 \<and> example_ParseFloat (SELFEXTRACT_GRACE_TIMEOUT ?e2) = Some (Finite x))"
    using p2 by simp
  from setupSignals_ignores_bad_value [where ParseFloat = example_ParseFloat and env = ?e1, OF a1 b1]
    setupSignals_ignores_bad_value [where ParseFloat = example_ParseFloat and env = ?e2, OF a2 b2] a1 p1 p2
  show ?thesis by (simp add: signal_handler_def time_Sleep_def Second_def)
qed


end
